theory Spec2Isabelle
  imports Main "HOL-Library.Word"
begin

unbundle bit_operations_syntax

section \<open>Data model of the Port driver (Port.h, Port_Cfg.h)\<close>

type_synonym uint8 = "8 word"
type_synonym uint16 = "16 word"
type_synonym uint32 = "32 word"

text \<open>
  \<^verbatim>\<open>Port_PortType\<close>, \<^verbatim>\<open>Port_ChannelType\<close>, \<^verbatim>\<open>Port_PinLevelType\<close>,
  \<^verbatim>\<open>Port_PinType\<close> and \<^verbatim>\<open>Port_PinModeType\<close> are all \<^verbatim>\<open>uint8\<close>. The two
  enumerations \<^verbatim>\<open>Port_PinDirectionType\<close> and \<^verbatim>\<open>Port_InternalResistorType\<close> are kept as
  their integer values, because the driver only ever compares them for equality with an
  enumerator and takes the \<^verbatim>\<open>else\<close> branch for every other value.
\<close>

type_synonym Port_PinDirectionType = uint32
type_synonym Port_InternalResistorType = uint32

definition PORT_PIN_IN :: Port_PinDirectionType where "PORT_PIN_IN = 0"
definition PORT_PIN_OUT :: Port_PinDirectionType where "PORT_PIN_OUT = 1"

definition RESISTOR_OFF :: Port_InternalResistorType where "RESISTOR_OFF = 0"
definition PULL_UP :: Port_InternalResistorType where "PULL_UP = 1"
definition PULL_DOWN :: Port_InternalResistorType where "PULL_DOWN = 2"

definition PORT_VENDOR_ID :: uint16 where "PORT_VENDOR_ID = 1000"
definition PORT_MODULE_ID :: uint16 where "PORT_MODULE_ID = 124"
definition PORT_INSTANCE_ID :: uint8 where "PORT_INSTANCE_ID = 0"
definition PORT_SW_MAJOR_VERSION :: uint8 where "PORT_SW_MAJOR_VERSION = 1"
definition PORT_SW_MINOR_VERSION :: uint8 where "PORT_SW_MINOR_VERSION = 0"
definition PORT_SW_PATCH_VERSION :: uint8 where "PORT_SW_PATCH_VERSION = 0"

definition PORT_INITIALIZED :: uint8 where "PORT_INITIALIZED = 1"
definition PORT_NOT_INITIALIZED :: uint8 where "PORT_NOT_INITIALIZED = 0"

definition PORT_INIT_SID :: uint8 where "PORT_INIT_SID = 0x00"
definition PORT_SET_PIN_DIRECTION_SID :: uint8 where "PORT_SET_PIN_DIRECTION_SID = 0x01"
definition PORT_REFRESH_PIN_DIRECTION_SID :: uint8 where "PORT_REFRESH_PIN_DIRECTION_SID = 0x02"
definition PORT_GET_VERSION_INFO_SID :: uint8 where "PORT_GET_VERSION_INFO_SID = 0x03"
definition PORT_SET_PIN_MODE_SID :: uint8 where "PORT_SET_PIN_MODE_SID = 0x04"

definition PORT_E_PARAM_PIN :: uint8 where "PORT_E_PARAM_PIN = 0x0A"
definition PORT_E_DIRECTION_UNCHANGEABLE :: uint8 where "PORT_E_DIRECTION_UNCHANGEABLE = 0x0B"
definition PORT_E_PARAM_CONFIG :: uint8 where "PORT_E_PARAM_CONFIG = 0x0C"
definition PORT_E_PARAM_INVALID_MODE :: uint8 where "PORT_E_PARAM_INVALID_MODE = 0x0D"
definition PORT_E_MODE_UNCHANGEABLE :: uint8 where "PORT_E_MODE_UNCHANGEABLE = 0x0E"
definition PORT_E_UNINIT :: uint8 where "PORT_E_UNINIT = 0x0F"
definition PORT_E_PARAM_POINTER :: uint8 where "PORT_E_PARAM_POINTER = 0x10"

definition PORT_CONFIGURED_CHANNELS :: nat where "PORT_CONFIGURED_CHANNELS = 2"
definition PIN_MODE_DIO :: uint8 where "PIN_MODE_DIO = 0"

text \<open>
  Modelled from the spec: \<^verbatim>\<open>Std_Types.h\<close> is not among the sources. \<^verbatim>\<open>boolean\<close> is an
  unsigned byte with \<^verbatim>\<open>FALSE\<close> = 0 and \<^verbatim>\<open>TRUE\<close> = 1, a pin level is \<^verbatim>\<open>STD_LOW\<close> = 0 or
  \<^verbatim>\<open>STD_HIGH\<close> = 1, and the version record has the five fields that
  \<^verbatim>\<open>Port_GetVersionInfo\<close> fills (vendor id, module id, three-part version).
\<close>

definition FALSE :: uint8 where "FALSE = 0"
definition TRUE :: uint8 where "TRUE = 1"
definition STD_LOW :: uint8 where "STD_LOW = 0"
definition STD_HIGH :: uint8 where "STD_HIGH = 1"

record Std_VersionInfoType =
  vendorID :: uint16
  moduleID :: uint16
  sw_major_version :: uint8
  sw_minor_version :: uint8
  sw_patch_version :: uint8

record Port_ConfigChannel =
  Port_Num :: uint8
  Ch_Num :: uint8
  Mode :: uint8
  Direction :: Port_PinDirectionType
  InitialValue :: uint8
  Direction_Changeable :: uint8
  Mode_Changeable :: uint8
  Resistor :: Port_InternalResistorType

text \<open>
  \<^verbatim>\<open>Port_ConfigType\<close> holds the array \<^verbatim>\<open>Pins[PORT_CONFIGURED_CHANNELS]\<close>: a table is a
  list of that length. The driver reads \<^verbatim>\<open>Pins[i]\<close> only for
  \<open>i < PORT_CONFIGURED_CHANNELS\<close>: the bound of each loop and the range check of the pin
  identifier in the single-pin services see to it.
\<close>

record Port_ConfigType =
  Pins :: "Port_ConfigChannel list"

section \<open>Registers, diagnostics and the driver state\<close>

text \<open>
  Modelled from the spec: \<^verbatim>\<open>Port_Regs.h\<close> is not among the sources. The spec (section 6)
  gives six fixed port base addresses, each with a fixed offset layout for the lock, commit,
  direction, data, pull-up, pull-down, analog-select, alternate-function, digital-enable and
  function-selector registers, and one shared clock-gate register. A register is therefore
  a symbolic location: the clock gate, or a base address together with an offset; distinct
  names are distinct registers.
\<close>

datatype gpio_base =
    GPIO_PORTA_BASE_ADDRESS
  | GPIO_PORTB_BASE_ADDRESS
  | GPIO_PORTC_BASE_ADDRESS
  | GPIO_PORTD_BASE_ADDRESS
  | GPIO_PORTE_BASE_ADDRESS
  | GPIO_PORTF_BASE_ADDRESS

datatype reg_offset =
    PORT_DATA_REG_OFFSET
  | PORT_DIR_REG_OFFSET
  | PORT_ALT_FUNC_REG_OFFSET
  | PORT_PULL_UP_REG_OFFSET
  | PORT_PULL_DOWN_REG_OFFSET
  | PORT_DIGITAL_ENABLE_REG_OFFSET
  | PORT_LOCK_REG_OFFSET
  | PORT_COMMIT_REG_OFFSET
  | PORT_ANALOG_MODE_SEL_REG_OFFSET
  | PORT_CTL_REG_OFFSET

datatype reg = SYSCTL_RCGCGPIO_REG | GPIO gpio_base reg_offset

text \<open>A report to the diagnostic sink: module, instance, service and error identifiers.\<close>

type_synonym det_report = "uint16 \<times> uint8 \<times> uint8 \<times> uint8"

text \<open>
  The two static variables of \<^verbatim>\<open>Port.c\<close> (\<open>Port_Status\<close>, \<open>Port_ConfigPtr\<close>, the null
  pointer being \<open>None\<close>), the contents of the memory-mapped registers, the chronological
  list of register writes performed so far (register, value written) and the list of
  reports made to the diagnostic sink.
\<close>

record Port_State =
  Port_Status :: uint8
  Port_ConfigPtr :: "Port_ConfigType option"
  regs :: "reg \<Rightarrow> uint32"
  writes :: "(reg \<times> uint32) list"
  det :: "det_report list"

text \<open>Reading through a null \<open>Port_ConfigPtr\<close> does not return a state.\<close>

datatype fault = NullPointerDereference

text \<open>
  Modelled from the spec: \<^verbatim>\<open>Det.h\<close> is not among the sources. The sink receives the
  4-tuple and returns nothing to the driver.
\<close>

definition Det_ReportError :: "uint16 \<Rightarrow> uint8 \<Rightarrow> uint8 \<Rightarrow> uint8 \<Rightarrow> Port_State \<Rightarrow> Port_State" where
  "Det_ReportError ModuleId InstanceId ApiId ErrorId s =
     s\<lparr>det := det s @ [(ModuleId, InstanceId, ApiId, ErrorId)]\<rparr>"

text \<open>A store to a volatile register: the register takes the value, the write is logged.\<close>

definition write_reg :: "reg \<Rightarrow> uint32 \<Rightarrow> Port_State \<Rightarrow> Port_State" where
  "write_reg r v s = s\<lparr>regs := (regs s)(r := v), writes := writes s @ [(r, v)]\<rparr>"

text \<open>
  Modelled from the spec: \<^verbatim>\<open>common_macros.h\<close> is not among the sources. \<^verbatim>\<open>SET_BIT\<close> and
  \<^verbatim>\<open>CLEAR_BIT\<close> are read-modify-write operations on one register that set, respectively
  clear, the bit at the given position. Here and in the driver, shifts are computed on
  32-bit words; a shift count of 32 or more, which C leaves undefined, yields 0 as the
  logical shift instruction of the target does.
\<close>

definition SET_BIT :: "reg \<Rightarrow> uint8 \<Rightarrow> Port_State \<Rightarrow> Port_State" where
  "SET_BIT r b s = write_reg r (regs s r OR push_bit (unat b) 1) s"

definition CLEAR_BIT :: "reg \<Rightarrow> uint8 \<Rightarrow> Port_State \<Rightarrow> Port_State" where
  "CLEAR_BIT r b s = write_reg r (regs s r AND NOT (push_bit (unat b) 1)) s"

section \<open>The driver (Port.c)\<close>

text \<open>
  \<^verbatim>\<open>Port_Cfg.h\<close> sets \<^verbatim>\<open>PORT_DEV_ERROR_DETECT\<close> to \<^verbatim>\<open>STD_ON\<close>, so the development-error
  checks and reports are part of every service.
\<close>

text \<open>
  The \<^verbatim>\<open>switch (port_num)\<close> that every service repeats: cases 0 to 5 give the base address
  of ports A to F, \<^verbatim>\<open>default\<close> is \<open>None\<close>.
\<close>

definition port_base :: "uint8 \<Rightarrow> gpio_base option" where
  "port_base port_num =
     (if port_num = 0 then Some GPIO_PORTA_BASE_ADDRESS
      else if port_num = 1 then Some GPIO_PORTB_BASE_ADDRESS
      else if port_num = 2 then Some GPIO_PORTC_BASE_ADDRESS
      else if port_num = 3 then Some GPIO_PORTD_BASE_ADDRESS
      else if port_num = 4 then Some GPIO_PORTE_BASE_ADDRESS
      else if port_num = 5 then Some GPIO_PORTF_BASE_ADDRESS
      else None)"

text \<open>The test for PD7 and PF0 that precedes the unlock sequence in every service.\<close>

definition is_locked_pin :: "uint8 \<Rightarrow> uint8 \<Rightarrow> bool" where
  "is_locked_pin port_num pin_num \<longleftrightarrow>
     (port_num = 3 \<and> pin_num = 7) \<or> (port_num = 5 \<and> pin_num = 0)"

text \<open>The unlock sequence: the key to the lock register, then the commit bit of the pin.\<close>

definition unlock_commit :: "gpio_base \<Rightarrow> uint8 \<Rightarrow> Port_State \<Rightarrow> Port_State" where
  "unlock_commit PortGpio_Ptr pin_num s =
     SET_BIT (GPIO PortGpio_Ptr PORT_COMMIT_REG_OFFSET) pin_num
       (write_reg (GPIO PortGpio_Ptr PORT_LOCK_REG_OFFSET) 0x4C4F434B s)"

text \<open>The body of \<^verbatim>\<open>case PIN_MODE_DIO\<close>, the same in \<open>Port_Init\<close> and \<open>Port_SetPinMode\<close>.\<close>

definition mode_DIO :: "gpio_base \<Rightarrow> uint8 \<Rightarrow> Port_State \<Rightarrow> Port_State" where
  "mode_DIO PortGpio_Ptr pin_num s =
     (let s1 = CLEAR_BIT (GPIO PortGpio_Ptr PORT_ANALOG_MODE_SEL_REG_OFFSET) pin_num s;
          s2 = CLEAR_BIT (GPIO PortGpio_Ptr PORT_ALT_FUNC_REG_OFFSET) pin_num s1;
          s3 = write_reg (GPIO PortGpio_Ptr PORT_CTL_REG_OFFSET)
                 (regs s2 (GPIO PortGpio_Ptr PORT_CTL_REG_OFFSET)
                    AND NOT (push_bit (unat pin_num * 4) 0x0F)) s2
      in SET_BIT (GPIO PortGpio_Ptr PORT_DIGITAL_ENABLE_REG_OFFSET) pin_num s3)"

subsection \<open>Port_Init\<close>

text \<open>The clock-gate step at the head of the loop body (lines 98 to 104).\<close>

definition Port_Init_clock :: "uint8 \<Rightarrow> uint8 \<times> Port_State \<Rightarrow> uint8 \<times> Port_State" where
  "Port_Init_clock port_num ms =
     (case ms of (portsEnabledMask, s) \<Rightarrow>
        if (ucast portsEnabledMask AND push_bit (unat port_num) 1) = (0 :: uint32)
        then (portsEnabledMask OR ucast (push_bit (unat port_num) (1 :: uint32)),
              write_reg SYSCTL_RCGCGPIO_REG
                (regs s SYSCTL_RCGCGPIO_REG OR push_bit (unat port_num) 1) s)
        else (portsEnabledMask, s))"

text \<open>The direction step of the loop body (lines 138 to 173).\<close>

definition Port_Init_direction ::
  "gpio_base \<Rightarrow> Port_ConfigChannel \<Rightarrow> Port_State \<Rightarrow> Port_State" where
  "Port_Init_direction PortGpio_Ptr pin s =
     (let pin_num = Ch_Num pin in
      if Direction pin = PORT_PIN_OUT
      then (let s1 = SET_BIT (GPIO PortGpio_Ptr PORT_DIR_REG_OFFSET) pin_num s in
            if InitialValue pin = STD_HIGH
            then SET_BIT (GPIO PortGpio_Ptr PORT_DATA_REG_OFFSET) pin_num s1
            else CLEAR_BIT (GPIO PortGpio_Ptr PORT_DATA_REG_OFFSET) pin_num s1)
      else (let s1 = CLEAR_BIT (GPIO PortGpio_Ptr PORT_DIR_REG_OFFSET) pin_num s in
            if Resistor pin = PULL_UP
            then CLEAR_BIT (GPIO PortGpio_Ptr PORT_PULL_DOWN_REG_OFFSET) pin_num
                   (SET_BIT (GPIO PortGpio_Ptr PORT_PULL_UP_REG_OFFSET) pin_num s1)
            else if Resistor pin = PULL_DOWN
            then CLEAR_BIT (GPIO PortGpio_Ptr PORT_PULL_UP_REG_OFFSET) pin_num
                   (SET_BIT (GPIO PortGpio_Ptr PORT_PULL_DOWN_REG_OFFSET) pin_num s1)
            else s1))"

text \<open>The \<^verbatim>\<open>switch (mode)\<close> of the loop body (lines 174 to 200).\<close>

definition Port_Init_mode :: "gpio_base \<Rightarrow> Port_ConfigChannel \<Rightarrow> Port_State \<Rightarrow> Port_State" where
  "Port_Init_mode PortGpio_Ptr pin s =
     (if Mode pin = PIN_MODE_DIO then mode_DIO PortGpio_Ptr (Ch_Num pin) s
      else Det_ReportError PORT_MODULE_ID PORT_INSTANCE_ID PORT_INIT_SID
             PORT_E_PARAM_INVALID_MODE s)"

text \<open>
  One iteration of the loop of \<open>Port_Init\<close> on the entry \<open>pin\<close>, from the local
  \<open>portsEnabledMask\<close> and the state to their new values. The \<^verbatim>\<open>default\<close> of the port
  switch reports and leaves the iteration (\<^verbatim>\<open>continue\<close>).
\<close>

definition Port_Init_entry :: "Port_ConfigChannel \<Rightarrow> uint8 \<times> Port_State \<Rightarrow> uint8 \<times> Port_State" where
  "Port_Init_entry pin ms =
     (case Port_Init_clock (Port_Num pin) ms of (portsEnabledMask, s1) \<Rightarrow>
        (case port_base (Port_Num pin) of
           None \<Rightarrow>
             (portsEnabledMask,
              Det_ReportError PORT_MODULE_ID PORT_INSTANCE_ID PORT_INIT_SID PORT_E_PARAM_PIN s1)
         | Some PortGpio_Ptr \<Rightarrow>
             (let s2 = (if is_locked_pin (Port_Num pin) (Ch_Num pin)
                        then unlock_commit PortGpio_Ptr (Ch_Num pin) s1 else s1);
                  s3 = Port_Init_direction PortGpio_Ptr pin s2
              in (portsEnabledMask, Port_Init_mode PortGpio_Ptr pin s3))))"

text \<open>The loop of \<open>Port_Init\<close> over the indices \<open>idxs\<close> of the table.\<close>

definition Port_Init_loop ::
  "Port_ConfigType \<Rightarrow> nat list \<Rightarrow> uint8 \<times> Port_State \<Rightarrow> uint8 \<times> Port_State" where
  "Port_Init_loop cfg idxs ms = fold (\<lambda>loop_idx. Port_Init_entry (Pins cfg ! loop_idx)) idxs ms"

text \<open>Entering \<open>Port_Init\<close> with a table: lines 77 and 80.\<close>

definition Port_Init_enter :: "Port_ConfigType \<Rightarrow> Port_State \<Rightarrow> Port_State" where
  "Port_Init_enter cfg s = (s\<lparr>Port_ConfigPtr := Some cfg\<rparr>)\<lparr>Port_Status := PORT_NOT_INITIALIZED\<rparr>"

definition Port_Init :: "Port_ConfigType option \<Rightarrow> Port_State \<Rightarrow> Port_State" where
  "Port_Init ConfigPtr s =
     (case ConfigPtr of
        None \<Rightarrow> Det_ReportError PORT_MODULE_ID PORT_INSTANCE_ID PORT_INIT_SID PORT_E_PARAM_CONFIG s
      | Some cfg \<Rightarrow>
          (snd (Port_Init_loop cfg [0..<PORT_CONFIGURED_CHANNELS] (0, Port_Init_enter cfg s)))
            \<lparr>Port_Status := PORT_INITIALIZED\<rparr>)"

subsection \<open>Port_setPinDirection\<close>

definition Port_setPinDirection ::
  "uint8 \<Rightarrow> Port_PinDirectionType \<Rightarrow> Port_State \<Rightarrow> fault + Port_State" where
  "Port_setPinDirection Pin Direction' s =
     (if Port_Status s = PORT_NOT_INITIALIZED
      then Inr (Det_ReportError PORT_MODULE_ID PORT_INSTANCE_ID PORT_SET_PIN_DIRECTION_SID
                  PORT_E_UNINIT s)
      else if PORT_CONFIGURED_CHANNELS \<le> unat Pin
      then Inr (Det_ReportError PORT_MODULE_ID PORT_INSTANCE_ID PORT_SET_PIN_DIRECTION_SID
                  PORT_E_PARAM_PIN s)
      else (case Port_ConfigPtr s of
              None \<Rightarrow> Inl NullPointerDereference
            | Some cfg \<Rightarrow>
                (let pin = Pins cfg ! unat Pin in
                 if Direction_Changeable pin = FALSE
                 then Inr (Det_ReportError PORT_MODULE_ID PORT_INSTANCE_ID
                             PORT_SET_PIN_DIRECTION_SID PORT_E_DIRECTION_UNCHANGEABLE s)
                 else (case port_base (Port_Num pin) of
                         None \<Rightarrow>
                           Inr (Det_ReportError PORT_MODULE_ID PORT_INSTANCE_ID
                                  PORT_SET_PIN_DIRECTION_SID PORT_E_PARAM_PIN s)
                       | Some PortGpio_Ptr \<Rightarrow>
                           (let s1 = (if is_locked_pin (Port_Num pin) (Ch_Num pin)
                                      then unlock_commit PortGpio_Ptr (Ch_Num pin) s else s)
                            in if Direction' = PORT_PIN_OUT
                               then Inr (SET_BIT (GPIO PortGpio_Ptr PORT_DIR_REG_OFFSET)
                                           (Ch_Num pin) s1)
                               else Inr (CLEAR_BIT (GPIO PortGpio_Ptr PORT_DIR_REG_OFFSET)
                                           (Ch_Num pin) s1))))))"

subsection \<open>Port_RefreshPortDirection\<close>

text \<open>One iteration of the loop of \<open>Port_RefreshPortDirection\<close> on the entry \<open>pin\<close>.\<close>

definition Port_Refresh_entry :: "Port_ConfigChannel \<Rightarrow> Port_State \<Rightarrow> Port_State" where
  "Port_Refresh_entry pin s =
     (if Direction_Changeable pin = FALSE
      then (case port_base (Port_Num pin) of
              None \<Rightarrow>
                Det_ReportError PORT_MODULE_ID PORT_INSTANCE_ID PORT_REFRESH_PIN_DIRECTION_SID
                  PORT_E_PARAM_PIN s
            | Some PortGpio_Ptr \<Rightarrow>
                (let s1 = (if is_locked_pin (Port_Num pin) (Ch_Num pin)
                           then unlock_commit PortGpio_Ptr (Ch_Num pin) s else s)
                 in if Direction pin = PORT_PIN_OUT
                    then SET_BIT (GPIO PortGpio_Ptr PORT_DIR_REG_OFFSET) (Ch_Num pin) s1
                    else CLEAR_BIT (GPIO PortGpio_Ptr PORT_DIR_REG_OFFSET) (Ch_Num pin) s1))
      else s)"

definition Port_Refresh_loop :: "Port_ConfigType \<Rightarrow> nat list \<Rightarrow> Port_State \<Rightarrow> Port_State" where
  "Port_Refresh_loop cfg idxs s = fold (\<lambda>loop_idx. Port_Refresh_entry (Pins cfg ! loop_idx)) idxs s"

definition Port_RefreshPortDirection :: "Port_State \<Rightarrow> fault + Port_State" where
  "Port_RefreshPortDirection s =
     (if Port_Status s = PORT_NOT_INITIALIZED
      then Inr (Det_ReportError PORT_MODULE_ID PORT_INSTANCE_ID PORT_REFRESH_PIN_DIRECTION_SID
                  PORT_E_UNINIT s)
      else (case Port_ConfigPtr s of
              None \<Rightarrow> Inl NullPointerDereference
            | Some cfg \<Rightarrow> Inr (Port_Refresh_loop cfg [0..<PORT_CONFIGURED_CHANNELS] s)))"

subsection \<open>Port_GetVersionInfo\<close>

text \<open>The output slot is the caller's; the service returns it filled, or absent as given.\<close>

definition Port_GetVersionInfo ::
  "Std_VersionInfoType option \<Rightarrow> Port_State \<Rightarrow> Std_VersionInfoType option \<times> Port_State" where
  "Port_GetVersionInfo versioninfo s =
     (case versioninfo of
        None \<Rightarrow>
          (None, Det_ReportError PORT_MODULE_ID PORT_INSTANCE_ID PORT_GET_VERSION_INFO_SID
                   PORT_E_PARAM_POINTER s)
      | Some v \<Rightarrow>
          (Some (v\<lparr>vendorID := PORT_VENDOR_ID, moduleID := PORT_MODULE_ID,
                   sw_major_version := PORT_SW_MAJOR_VERSION,
                   sw_minor_version := PORT_SW_MINOR_VERSION,
                   sw_patch_version := PORT_SW_PATCH_VERSION\<rparr>), s))"

subsection \<open>Port_SetPinMode\<close>

definition Port_SetPinMode :: "uint8 \<Rightarrow> uint8 \<Rightarrow> Port_State \<Rightarrow> fault + Port_State" where
  "Port_SetPinMode Pin Mode' s =
     (if Port_Status s = PORT_NOT_INITIALIZED
      then Inr (Det_ReportError PORT_MODULE_ID PORT_INSTANCE_ID PORT_SET_PIN_MODE_SID
                  PORT_E_UNINIT s)
      else if PORT_CONFIGURED_CHANNELS \<le> unat Pin
      then Inr (Det_ReportError PORT_MODULE_ID PORT_INSTANCE_ID PORT_SET_PIN_MODE_SID
                  PORT_E_PARAM_PIN s)
      else (case Port_ConfigPtr s of
              None \<Rightarrow> Inl NullPointerDereference
            | Some cfg \<Rightarrow>
                (let pin = Pins cfg ! unat Pin in
                 if Mode_Changeable pin = FALSE
                 then Inr (Det_ReportError PORT_MODULE_ID PORT_INSTANCE_ID
                             PORT_SET_PIN_MODE_SID PORT_E_MODE_UNCHANGEABLE s)
                 else (case port_base (Port_Num pin) of
                         None \<Rightarrow>
                           Inr (Det_ReportError PORT_MODULE_ID PORT_INSTANCE_ID
                                  PORT_SET_PIN_MODE_SID PORT_E_PARAM_PIN s)
                       | Some PortGpio_Ptr \<Rightarrow>
                           (let s1 = (if is_locked_pin (Port_Num pin) (Ch_Num pin)
                                      then unlock_commit PortGpio_Ptr (Ch_Num pin) s else s)
                            in if Mode' = PIN_MODE_DIO
                               then Inr (mode_DIO PortGpio_Ptr (Ch_Num pin) s1)
                               else Inr (Det_ReportError PORT_MODULE_ID PORT_INSTANCE_ID
                                           PORT_SET_PIN_MODE_SID
                                           PORT_E_PARAM_INVALID_MODE s1))))))"

section \<open>Runs, and what a run adds to the logs\<close>

text \<open>The state at program start (the static initialisers), over given register contents.\<close>

definition Port_State_start :: "(reg \<Rightarrow> uint32) \<Rightarrow> Port_State" where
  "Port_State_start rs =
     \<lparr>Port_Status = PORT_NOT_INITIALIZED, Port_ConfigPtr = None, regs = rs, writes = [], det = []\<rparr>"

text \<open>The writes and the reports that a run from \<open>s\<close> to \<open>s'\<close> has added.\<close>

definition new_writes :: "Port_State \<Rightarrow> Port_State \<Rightarrow> (reg \<times> uint32) list" where
  "new_writes s s' = drop (length (writes s)) (writes s')"

definition new_reports :: "Port_State \<Rightarrow> Port_State \<Rightarrow> det_report list" where
  "new_reports s s' = drop (length (det s)) (det s')"

text \<open>
  The entry \<open>pin\<close> has a fixed direction and names bit \<open>n\<close> of the direction register of
  the port at \<open>b\<close>: the bit that the loop body of \<open>Port_RefreshPortDirection\<close> rewrites
  for it.
\<close>

definition fixed_pin_at :: "Port_ConfigChannel \<Rightarrow> gpio_base \<Rightarrow> nat \<Rightarrow> bool" where
  "fixed_pin_at pin b n \<longleftrightarrow>
     Direction_Changeable pin = FALSE \<and> port_base (Port_Num pin) = Some b \<and>
     unat (Ch_Num pin) = n"

section \<open>Concrete inputs\<close>

text \<open>
  Modelled from the spec: \<^verbatim>\<open>Dio_Cfg.h\<close> is not among the sources; the port and channel
  numbers of LED1 and SW1 in the post-build table of \<^verbatim>\<open>Port_PBcfg.c\<close> are those of the
  concrete scenario of the spec (port F, channels 1 and 4).
\<close>

definition Port_Configuration :: Port_ConfigType where
  "Port_Configuration =
     \<lparr>Pins =
        [\<lparr>Port_Num = 5, Ch_Num = 1, Mode = PIN_MODE_DIO, Direction = PORT_PIN_OUT,
          InitialValue = STD_HIGH, Direction_Changeable = TRUE, Mode_Changeable = TRUE,
          Resistor = RESISTOR_OFF\<rparr>,
         \<lparr>Port_Num = 5, Ch_Num = 4, Mode = PIN_MODE_DIO, Direction = PORT_PIN_IN,
          InitialValue = STD_LOW, Direction_Changeable = FALSE, Mode_Changeable = TRUE,
          Resistor = PULL_UP\<rparr>]\<rparr>"

text \<open>
  An initialised driver holding the table \<open>cfg\<close>, over given register contents and with
  empty logs.
\<close>

definition Port_State_ready :: "Port_ConfigType \<Rightarrow> (reg \<Rightarrow> uint32) \<Rightarrow> Port_State" where
  "Port_State_ready cfg rs =
     \<lparr>Port_Status = PORT_INITIALIZED, Port_ConfigPtr = Some cfg, regs = rs, writes = [],
      det = []\<rparr>"

text \<open>Further tables, each differing from the repository's in at most a few fields.\<close>

definition cfg_port6 :: Port_ConfigType where
  "cfg_port6 =
     \<lparr>Pins =
        [\<lparr>Port_Num = 6, Ch_Num = 1, Mode = PIN_MODE_DIO, Direction = PORT_PIN_OUT,
          InitialValue = STD_HIGH, Direction_Changeable = TRUE, Mode_Changeable = TRUE,
          Resistor = RESISTOR_OFF\<rparr>,
         \<lparr>Port_Num = 5, Ch_Num = 4, Mode = PIN_MODE_DIO, Direction = PORT_PIN_IN,
          InitialValue = STD_LOW, Direction_Changeable = FALSE, Mode_Changeable = TRUE,
          Resistor = PULL_UP\<rparr>]\<rparr>"

definition cfg_resistor_off :: Port_ConfigType where
  "cfg_resistor_off =
     \<lparr>Pins =
        [\<lparr>Port_Num = 5, Ch_Num = 1, Mode = PIN_MODE_DIO, Direction = PORT_PIN_OUT,
          InitialValue = STD_HIGH, Direction_Changeable = TRUE, Mode_Changeable = TRUE,
          Resistor = RESISTOR_OFF\<rparr>,
         \<lparr>Port_Num = 5, Ch_Num = 4, Mode = PIN_MODE_DIO, Direction = PORT_PIN_IN,
          InitialValue = STD_LOW, Direction_Changeable = FALSE, Mode_Changeable = TRUE,
          Resistor = RESISTOR_OFF\<rparr>]\<rparr>"

definition cfg_PF0 :: Port_ConfigType where
  "cfg_PF0 =
     \<lparr>Pins =
        [\<lparr>Port_Num = 5, Ch_Num = 0, Mode = PIN_MODE_DIO, Direction = PORT_PIN_IN,
          InitialValue = STD_LOW, Direction_Changeable = TRUE, Mode_Changeable = TRUE,
          Resistor = PULL_UP\<rparr>,
         \<lparr>Port_Num = 5, Ch_Num = 1, Mode = PIN_MODE_DIO, Direction = PORT_PIN_OUT,
          InitialValue = STD_HIGH, Direction_Changeable = FALSE, Mode_Changeable = TRUE,
          Resistor = RESISTOR_OFF\<rparr>]\<rparr>"

definition cfg_channel8 :: Port_ConfigType where
  "cfg_channel8 =
     \<lparr>Pins =
        [\<lparr>Port_Num = 0, Ch_Num = 8, Mode = PIN_MODE_DIO, Direction = PORT_PIN_IN,
          InitialValue = STD_LOW, Direction_Changeable = TRUE, Mode_Changeable = TRUE,
          Resistor = RESISTOR_OFF\<rparr>,
         \<lparr>Port_Num = 5, Ch_Num = 4, Mode = PIN_MODE_DIO, Direction = PORT_PIN_IN,
          InitialValue = STD_LOW, Direction_Changeable = FALSE, Mode_Changeable = TRUE,
          Resistor = PULL_UP\<rparr>]\<rparr>"

section \<open>Field-wise effect of the primitive steps\<close>

lemma Det_ReportError_fields:
  "Port_Status (Det_ReportError m i a e s) = Port_Status s"
  "Port_ConfigPtr (Det_ReportError m i a e s) = Port_ConfigPtr s"
  "regs (Det_ReportError m i a e s) = regs s"
  "writes (Det_ReportError m i a e s) = writes s"
  "det (Det_ReportError m i a e s) = det s @ [(m, i, a, e)]"
  by (simp_all add: Det_ReportError_def)

lemma write_reg_fields:
  "Port_Status (write_reg r v s) = Port_Status s"
  "Port_ConfigPtr (write_reg r v s) = Port_ConfigPtr s"
  "regs (write_reg r v s) = (regs s)(r := v)"
  "writes (write_reg r v s) = writes s @ [(r, v)]"
  "det (write_reg r v s) = det s"
  by (simp_all add: write_reg_def)

lemma SET_BIT_fields:
  "Port_Status (SET_BIT r b s) = Port_Status s"
  "Port_ConfigPtr (SET_BIT r b s) = Port_ConfigPtr s"
  "regs (SET_BIT r b s) = (regs s)(r := regs s r OR push_bit (unat b) 1)"
  "writes (SET_BIT r b s) = writes s @ [(r, regs s r OR push_bit (unat b) 1)]"
  "det (SET_BIT r b s) = det s"
  by (simp_all add: SET_BIT_def write_reg_fields)

lemma CLEAR_BIT_fields:
  "Port_Status (CLEAR_BIT r b s) = Port_Status s"
  "Port_ConfigPtr (CLEAR_BIT r b s) = Port_ConfigPtr s"
  "regs (CLEAR_BIT r b s) = (regs s)(r := regs s r AND NOT (push_bit (unat b) 1))"
  "writes (CLEAR_BIT r b s) = writes s @ [(r, regs s r AND NOT (push_bit (unat b) 1))]"
  "det (CLEAR_BIT r b s) = det s"
  by (simp_all add: CLEAR_BIT_def write_reg_fields)

lemma unlock_commit_frame:
  "Port_Status (unlock_commit b p s) = Port_Status s"
  "Port_ConfigPtr (unlock_commit b p s) = Port_ConfigPtr s"
  "det (unlock_commit b p s) = det s"
  by (simp_all add: unlock_commit_def SET_BIT_fields write_reg_fields)

lemma mode_DIO_frame:
  "Port_Status (mode_DIO b p s) = Port_Status s"
  "Port_ConfigPtr (mode_DIO b p s) = Port_ConfigPtr s"
  "det (mode_DIO b p s) = det s"
  by (simp_all add: mode_DIO_def Let_def SET_BIT_fields CLEAR_BIT_fields write_reg_fields)

lemma Port_Init_clock_frame:
  "Port_Status (snd (Port_Init_clock n ms)) = Port_Status (snd ms)"
  "Port_ConfigPtr (snd (Port_Init_clock n ms)) = Port_ConfigPtr (snd ms)"
  "det (snd (Port_Init_clock n ms)) = det (snd ms)"
  by (simp_all add: Port_Init_clock_def write_reg_fields split: prod.splits)

lemma Port_Init_direction_frame:
  "Port_Status (Port_Init_direction b pin s) = Port_Status s"
  "Port_ConfigPtr (Port_Init_direction b pin s) = Port_ConfigPtr s"
  "det (Port_Init_direction b pin s) = det s"
  by (simp_all add: Port_Init_direction_def Let_def SET_BIT_fields CLEAR_BIT_fields)

lemma Port_Init_mode_frame:
  "Port_Status (Port_Init_mode b pin s) = Port_Status s"
  "Port_ConfigPtr (Port_Init_mode b pin s) = Port_ConfigPtr s"
  by (simp_all add: Port_Init_mode_def mode_DIO_frame Det_ReportError_fields)

lemma Port_Init_entry_frame:
  "Port_Status (snd (Port_Init_entry pin ms)) = Port_Status (snd ms)"
  "Port_ConfigPtr (snd (Port_Init_entry pin ms)) = Port_ConfigPtr (snd ms)"
  using Port_Init_clock_frame(1,2)[of "Port_Num pin" ms]
  by (auto simp add: Port_Init_entry_def Let_def Port_Init_mode_frame Port_Init_direction_frame
      unlock_commit_frame Det_ReportError_fields split: prod.splits option.splits)

lemma Port_Init_loop_frame:
  "Port_Status (snd (Port_Init_loop cfg idxs ms)) = Port_Status (snd ms) \<and>
   Port_ConfigPtr (snd (Port_Init_loop cfg idxs ms)) = Port_ConfigPtr (snd ms)"
  unfolding Port_Init_loop_def
  by (induction idxs arbitrary: ms) (simp_all add: Port_Init_entry_frame)

lemma Port_Refresh_entry_frame:
  "Port_Status (Port_Refresh_entry pin s) = Port_Status s"
  "Port_ConfigPtr (Port_Refresh_entry pin s) = Port_ConfigPtr s"
  by (simp_all add: Port_Refresh_entry_def Let_def SET_BIT_fields CLEAR_BIT_fields
      unlock_commit_frame Det_ReportError_fields split: option.splits)

lemma Port_Refresh_loop_frame:
  "Port_Status (Port_Refresh_loop cfg idxs s) = Port_Status s \<and>
   Port_ConfigPtr (Port_Refresh_loop cfg idxs s) = Port_ConfigPtr s"
  unfolding Port_Refresh_loop_def
  by (induction idxs arbitrary: s) (simp_all add: Port_Refresh_entry_frame)

lemmas Port_consts =
  PORT_PIN_IN_def PORT_PIN_OUT_def RESISTOR_OFF_def PULL_UP_def PULL_DOWN_def
  PORT_INITIALIZED_def PORT_NOT_INITIALIZED_def PORT_CONFIGURED_CHANNELS_def PIN_MODE_DIO_def
  FALSE_def TRUE_def STD_LOW_def STD_HIGH_def

lemmas Port_steps =
  Port_Init_entry_def Port_Init_clock_def Port_Init_direction_def Port_Init_mode_def
  Port_Refresh_entry_def mode_DIO_def unlock_commit_def SET_BIT_def CLEAR_BIT_def
  write_reg_def Det_ReportError_def Let_def

lemmas Port_services =
  Port_Init_def Port_Init_loop_def Port_Init_enter_def Port_setPinDirection_def
  Port_RefreshPortDirection_def Port_Refresh_loop_def Port_SetPinMode_def

lemma port_base_None_iff: "port_base n = None \<longleftrightarrow> 5 < n"
proof -
  have "5 < n \<longleftrightarrow> 5 < unat n"
    by (simp add: word_less_nat_alt)
  moreover have "n = k \<longleftrightarrow> unat n = unat k" for k :: uint8
    by (simp add: word_unat_eq_iff)
  ultimately show ?thesis
    unfolding port_base_def by (simp split: if_splits)
qed

lemma bit_clear_mask: "\<not> bit ((w :: uint32) AND NOT (2 ^ n)) n"
  by (simp add: bit_simps)

lemma bit_set_mask: "n < 32 \<Longrightarrow> bit ((w :: uint32) OR 2 ^ n) n"
  by (simp add: bit_simps)

section \<open>Write traces of the steps\<close>

lemma Port_Init_clock_writes:
  "\<exists>clk. writes (snd (Port_Init_clock n (m, t))) = writes t @ clk \<and>
         fst ` set clk \<subseteq> {SYSCTL_RCGCGPIO_REG}"
  by (simp add: Port_Init_clock_def write_reg_def)

lemma Port_Init_clock_regs:
  "regs (snd (Port_Init_clock n (m, t))) (GPIO b off) = regs t (GPIO b off)"
  by (simp add: Port_Init_clock_def write_reg_def)

lemma unlock_commit_writes:
  "writes (unlock_commit b p s) =
     writes s @ [(GPIO b PORT_LOCK_REG_OFFSET, 0x4C4F434B),
                 (GPIO b PORT_COMMIT_REG_OFFSET,
                  regs s (GPIO b PORT_COMMIT_REG_OFFSET) OR push_bit (unat p) 1)]"
  by (simp add: unlock_commit_def SET_BIT_def write_reg_def)

lemma unlock_commit_regs_DIR:
  "regs (unlock_commit b p s) (GPIO b PORT_DIR_REG_OFFSET) = regs s (GPIO b PORT_DIR_REG_OFFSET)"
  by (simp add: unlock_commit_def SET_BIT_def write_reg_def)

lemma Port_Init_direction_writes:
  "\<exists>rest. writes (Port_Init_direction b pin s) =
       writes s @ (GPIO b PORT_DIR_REG_OFFSET,
                   if Direction pin = PORT_PIN_OUT
                   then regs s (GPIO b PORT_DIR_REG_OFFSET) OR push_bit (unat (Ch_Num pin)) 1
                   else regs s (GPIO b PORT_DIR_REG_OFFSET)
                          AND NOT (push_bit (unat (Ch_Num pin)) 1)) # rest \<and>
     GPIO b PORT_DIR_REG_OFFSET \<notin> fst ` set rest"
  by (simp add: Port_Init_direction_def SET_BIT_def CLEAR_BIT_def write_reg_def Let_def)

lemma Port_Init_mode_writes:
  "\<exists>rest. writes (Port_Init_mode b pin s) = writes s @ rest \<and>
     GPIO b PORT_DIR_REG_OFFSET \<notin> fst ` set rest"
  by (simp add: Port_Init_mode_def mode_DIO_def SET_BIT_def CLEAR_BIT_def write_reg_def
      Det_ReportError_def Let_def)

lemma Port_Init_entry_locked_writes:
  assumes l: "is_locked_pin (Port_Num pin) (Ch_Num pin)"
    and p: "port_base (Port_Num pin) = Some b"
  shows "\<exists>clk rest.
      new_writes t (snd (Port_Init_entry pin (m, t))) =
        clk @ [(GPIO b PORT_LOCK_REG_OFFSET, 0x4C4F434B),
               (GPIO b PORT_COMMIT_REG_OFFSET,
                regs t (GPIO b PORT_COMMIT_REG_OFFSET) OR push_bit (unat (Ch_Num pin)) 1),
               (GPIO b PORT_DIR_REG_OFFSET,
                if Direction pin = PORT_PIN_OUT
                then regs t (GPIO b PORT_DIR_REG_OFFSET) OR push_bit (unat (Ch_Num pin)) 1
                else regs t (GPIO b PORT_DIR_REG_OFFSET)
                       AND NOT (push_bit (unat (Ch_Num pin)) 1))] @ rest \<and>
      fst ` set clk \<subseteq> {SYSCTL_RCGCGPIO_REG} \<and>
      GPIO b PORT_DIR_REG_OFFSET \<notin> fst ` set rest"
proof -
  obtain m1 s1 where c: "Port_Init_clock (Port_Num pin) (m, t) = (m1, s1)"
    by (cases "Port_Init_clock (Port_Num pin) (m, t)")
  obtain clk where clk: "writes s1 = writes t @ clk" "fst ` set clk \<subseteq> {SYSCTL_RCGCGPIO_REG}"
    using Port_Init_clock_writes [of "Port_Num pin" m t] c by auto
  have r1: "regs s1 (GPIO b off) = regs t (GPIO b off)" for off
    using Port_Init_clock_regs [of "Port_Num pin" m t b off] c by simp
  define s2 where "s2 = unlock_commit b (Ch_Num pin) s1"
  define s3 where "s3 = Port_Init_direction b pin s2"
  have e: "snd (Port_Init_entry pin (m, t)) = Port_Init_mode b pin s3"
    using l p c by (simp add: Port_Init_entry_def s2_def s3_def Let_def)
  have w2: "writes s2 = writes s1 @ [(GPIO b PORT_LOCK_REG_OFFSET, 0x4C4F434B),
      (GPIO b PORT_COMMIT_REG_OFFSET,
       regs t (GPIO b PORT_COMMIT_REG_OFFSET) OR push_bit (unat (Ch_Num pin)) 1)]"
    by (simp only: s2_def unlock_commit_writes r1)
  have r2: "regs s2 (GPIO b PORT_DIR_REG_OFFSET) = regs t (GPIO b PORT_DIR_REG_OFFSET)"
    by (simp only: s2_def unlock_commit_regs_DIR r1)
  obtain rest3 where w3: "writes s3 = writes s2 @ (GPIO b PORT_DIR_REG_OFFSET,
                   if Direction pin = PORT_PIN_OUT
                   then regs t (GPIO b PORT_DIR_REG_OFFSET) OR push_bit (unat (Ch_Num pin)) 1
                   else regs t (GPIO b PORT_DIR_REG_OFFSET)
                          AND NOT (push_bit (unat (Ch_Num pin)) 1)) # rest3"
    and n3: "GPIO b PORT_DIR_REG_OFFSET \<notin> fst ` set rest3"
    using Port_Init_direction_writes [of b pin s2] unfolding s3_def r2 by blast
  obtain rest4 where w4: "writes (Port_Init_mode b pin s3) = writes s3 @ rest4"
    and n4: "GPIO b PORT_DIR_REG_OFFSET \<notin> fst ` set rest4"
    using Port_Init_mode_writes [of b pin s3] by blast
  have "new_writes t (snd (Port_Init_entry pin (m, t))) =
        clk @ [(GPIO b PORT_LOCK_REG_OFFSET, 0x4C4F434B),
               (GPIO b PORT_COMMIT_REG_OFFSET,
                regs t (GPIO b PORT_COMMIT_REG_OFFSET) OR push_bit (unat (Ch_Num pin)) 1),
               (GPIO b PORT_DIR_REG_OFFSET,
                if Direction pin = PORT_PIN_OUT
                then regs t (GPIO b PORT_DIR_REG_OFFSET) OR push_bit (unat (Ch_Num pin)) 1
                else regs t (GPIO b PORT_DIR_REG_OFFSET)
                       AND NOT (push_bit (unat (Ch_Num pin)) 1))] @ (rest3 @ rest4)"
    unfolding new_writes_def e w4 w3 w2 clk(1) by simp
  moreover have "GPIO b PORT_DIR_REG_OFFSET \<notin> fst ` set (rest3 @ rest4)"
    using n3 n4 by auto
  ultimately show ?thesis
    using clk(2) by blast
qed

lemma locked_pin_commit_bit:
  "is_locked_pin port_num pin_num \<Longrightarrow> bit ((w :: uint32) OR push_bit (unat pin_num) 1) (unat pin_num)"
  by (auto simp add: is_locked_pin_def bit_simps)

section \<open>Direction bits across the refresh loop\<close>

lemma bit_set_mask_iff: "bit ((w :: uint32) OR 2 ^ k) n \<longleftrightarrow> bit w n \<or> (n = k \<and> k < 32)"
  by (auto simp add: bit_simps)

lemma bit_clear_mask_iff: "bit ((w :: uint32) AND NOT (2 ^ k)) n \<longleftrightarrow> bit w n \<and> n \<noteq> k"
  by (auto simp add: bit_simps dest: bit_imp_le_length)

lemma Port_Refresh_entry_DIR_bit:
  "bit (regs (Port_Refresh_entry pin s) (GPIO b PORT_DIR_REG_OFFSET)) n =
     (if fixed_pin_at pin b n \<and> n < 32 then Direction pin = PORT_PIN_OUT
      else bit (regs s (GPIO b PORT_DIR_REG_OFFSET)) n)"
  by (auto simp add: Port_Refresh_entry_def fixed_pin_at_def unlock_commit_def SET_BIT_def
      CLEAR_BIT_def write_reg_def Det_ReportError_def Let_def bit_set_mask_iff
      bit_clear_mask_iff split: option.splits dest: bit_imp_le_length)

lemma Port_Refresh_loop_DIR_bit_untouched:
  "\<forall>i \<in> set idxs. \<not> fixed_pin_at (Pins cfg ! i) b n \<Longrightarrow>
   bit (regs (Port_Refresh_loop cfg idxs s) (GPIO b PORT_DIR_REG_OFFSET)) n
     = bit (regs s (GPIO b PORT_DIR_REG_OFFSET)) n"
  unfolding Port_Refresh_loop_def
  by (induction idxs arbitrary: s) (simp_all add: Port_Refresh_entry_DIR_bit)

lemma Port_Refresh_loop_DIR_bit_restored:
  assumes "n < 32"
    and "\<exists>i \<in> set idxs. fixed_pin_at (Pins cfg ! i) b n"
    and "\<forall>i \<in> set idxs. fixed_pin_at (Pins cfg ! i) b n
           \<longrightarrow> (Direction (Pins cfg ! i) = PORT_PIN_OUT) = d"
  shows "bit (regs (Port_Refresh_loop cfg idxs s) (GPIO b PORT_DIR_REG_OFFSET)) n = d"
  using assms(2,3)
proof (induction idxs arbitrary: s)
  case Nil
  then show ?case by simp
next
  case (Cons i idxs)
  have step: "Port_Refresh_loop cfg (i # idxs) s
      = Port_Refresh_loop cfg idxs (Port_Refresh_entry (Pins cfg ! i) s)"
    by (simp add: Port_Refresh_loop_def)
  show ?case
  proof (cases "\<exists>j \<in> set idxs. fixed_pin_at (Pins cfg ! j) b n")
    case True
    with Cons.IH [of "Port_Refresh_entry (Pins cfg ! i) s"] Cons.prems(2) show ?thesis
      unfolding step by simp
  next
    case False
    with Cons.prems have here: "fixed_pin_at (Pins cfg ! i) b n"
      and dir: "(Direction (Pins cfg ! i) = PORT_PIN_OUT) = d"
      by auto
    from False have "bit (regs (Port_Refresh_loop cfg (i # idxs) s) (GPIO b PORT_DIR_REG_OFFSET)) n
        = bit (regs (Port_Refresh_entry (Pins cfg ! i) s) (GPIO b PORT_DIR_REG_OFFSET)) n"
      unfolding step by (intro Port_Refresh_loop_DIR_bit_untouched) simp
    also have "\<dots> = d"
      using here dir assms(1) by (simp add: Port_Refresh_entry_DIR_bit)
    finally show ?thesis .
  qed
qed

lemma Port_Init_Some_fields:
  "Port_Status (Port_Init (Some cfg) s) = PORT_INITIALIZED"
  "Port_ConfigPtr (Port_Init (Some cfg) s) = Some cfg"
  using Port_Init_loop_frame [of cfg "[0..<PORT_CONFIGURED_CHANNELS]" "(0, Port_Init_enter cfg s)"]
  by (simp_all add: Port_Init_def Port_Init_enter_def)

text \<open>
  A set flag comes with a stored table: the property holds at program start, \<open>Port_Init\<close>
  keeps it, and the other services change neither variable.
\<close>

lemma Port_Init_reference_invariant:
  assumes "Port_Status s = PORT_NOT_INITIALIZED \<or> Port_ConfigPtr s \<noteq> None"
  shows "Port_Status (Port_Init c s) = PORT_NOT_INITIALIZED \<or> Port_ConfigPtr (Port_Init c s) \<noteq> None"
proof (cases c)
  case None
  with assms show ?thesis
    by (simp add: Port_Init_def Det_ReportError_fields)
next
  case (Some cfg)
  then show ?thesis
    by (simp add: Port_Init_Some_fields)
qed


section \<open>Claims about the lifecycle flag and the stored configuration reference\<close>

text \<open>
  C8. \<open>Port_Init\<close> called with a null table reference reports \<open>PORT_E_PARAM_CONFIG\<close>
  (InvalidConfig) and nothing else, performs no register write, and leaves the lifecycle
  flag and the stored configuration reference as they were; from the state at program
  start the flag is therefore still \<open>PORT_NOT_INITIALIZED\<close> and the reference still null.
\<close>

theorem Port_Init_null_config:
  "new_reports s (Port_Init None s) =
     [(PORT_MODULE_ID, PORT_INSTANCE_ID, PORT_INIT_SID, PORT_E_PARAM_CONFIG)] \<and>
   writes (Port_Init None s) = writes s \<and>
   regs (Port_Init None s) = regs s \<and>
   Port_Status (Port_Init None s) = Port_Status s \<and>
   Port_ConfigPtr (Port_Init None s) = Port_ConfigPtr s \<and>
   Port_Status (Port_Init None (Port_State_start rs)) = PORT_NOT_INITIALIZED \<and>
   Port_ConfigPtr (Port_Init None (Port_State_start rs)) = None"
  by (simp add: Port_Init_def new_reports_def Det_ReportError_fields Port_State_start_def)

text \<open>
  C7. Entering \<open>Port_Init\<close> with a table sets the flag to \<open>PORT_NOT_INITIALIZED\<close> before
  any register write or report; the flag keeps that value after every number of processed
  entries; \<open>Port_Init\<close> is the full pass followed by the promotion, so the flag is
  \<open>PORT_INITIALIZED\<close> at the end whatever the table holds.
\<close>

theorem Port_Init_lifecycle:
  "Port_Status (Port_Init_enter cfg s) = PORT_NOT_INITIALIZED \<and>
   writes (Port_Init_enter cfg s) = writes s \<and>
   det (Port_Init_enter cfg s) = det s \<and>
   (\<forall>k \<le> PORT_CONFIGURED_CHANNELS.
      Port_Status (snd (Port_Init_loop cfg [0..<k] (0, Port_Init_enter cfg s)))
        = PORT_NOT_INITIALIZED) \<and>
   Port_Init (Some cfg) s =
     (snd (Port_Init_loop cfg [0..<PORT_CONFIGURED_CHANNELS] (0, Port_Init_enter cfg s)))
       \<lparr>Port_Status := PORT_INITIALIZED\<rparr> \<and>
   Port_Status (Port_Init (Some cfg) s) = PORT_INITIALIZED \<and>
   PORT_INITIALIZED \<noteq> PORT_NOT_INITIALIZED"
proof -
  have enter: "Port_Status (Port_Init_enter cfg s) = PORT_NOT_INITIALIZED"
    "writes (Port_Init_enter cfg s) = writes s" "det (Port_Init_enter cfg s) = det s"
    by (simp_all add: Port_Init_enter_def)
  have during: "Port_Status (snd (Port_Init_loop cfg idxs (0, Port_Init_enter cfg s)))
      = PORT_NOT_INITIALIZED" for idxs
    using Port_Init_loop_frame [of cfg idxs "(0, Port_Init_enter cfg s)"] enter(1) by simp
  have final: "Port_Status (Port_Init (Some cfg) s) = PORT_INITIALIZED"
    by (simp add: Port_Init_def)
  have "PORT_INITIALIZED \<noteq> PORT_NOT_INITIALIZED"
    by (simp add: PORT_INITIALIZED_def PORT_NOT_INITIALIZED_def)
  with enter during final show ?thesis
    by (simp add: Port_Init_def)
qed

theorem Port_Init_lifecycle_witness:
  "1 \<le> PORT_CONFIGURED_CHANNELS \<and>
   Port_Status (snd (Port_Init_loop Port_Configuration [0..<1]
      (0, Port_Init_enter Port_Configuration (Port_State_start (\<lambda>r. 0))))) = PORT_NOT_INITIALIZED \<and>
   Port_Status (Port_Init (Some Port_Configuration) (Port_State_start (\<lambda>r. 0))) = PORT_INITIALIZED"
proof -
  have k: "1 \<le> PORT_CONFIGURED_CHANNELS"
    by (simp add: PORT_CONFIGURED_CHANNELS_def)
  with Port_Init_lifecycle [of Port_Configuration "Port_State_start (\<lambda>r. 0)"]
  show ?thesis by blast
qed

text \<open>
  C10. \<open>Port_setPinDirection\<close>, \<open>Port_RefreshPortDirection\<close>, \<open>Port_SetPinMode\<close> and
  \<open>Port_GetVersionInfo\<close> leave \<open>Port_Status\<close> and \<open>Port_ConfigPtr\<close> unchanged for every
  argument and every starting state, on the reporting paths as on the successful ones.
  The only runs that return no state are those that read through a null \<open>Port_ConfigPtr\<close>
  with the flag set, a state that the driver does not reach from program start
  (\<open>Port_Init_reference_invariant\<close>).
\<close>

theorem process_wide_state_frame:
  "(case Port_setPinDirection Pin dir s of
      Inl f \<Rightarrow> Port_Status s \<noteq> PORT_NOT_INITIALIZED \<and> Port_ConfigPtr s = None
    | Inr s' \<Rightarrow> Port_Status s' = Port_Status s \<and> Port_ConfigPtr s' = Port_ConfigPtr s) \<and>
   (case Port_RefreshPortDirection s of
      Inl f \<Rightarrow> Port_Status s \<noteq> PORT_NOT_INITIALIZED \<and> Port_ConfigPtr s = None
    | Inr s' \<Rightarrow> Port_Status s' = Port_Status s \<and> Port_ConfigPtr s' = Port_ConfigPtr s) \<and>
   (case Port_SetPinMode Pin m s of
      Inl f \<Rightarrow> Port_Status s \<noteq> PORT_NOT_INITIALIZED \<and> Port_ConfigPtr s = None
    | Inr s' \<Rightarrow> Port_Status s' = Port_Status s \<and> Port_ConfigPtr s' = Port_ConfigPtr s) \<and>
   Port_Status (snd (Port_GetVersionInfo versioninfo s)) = Port_Status s \<and>
   Port_ConfigPtr (snd (Port_GetVersionInfo versioninfo s)) = Port_ConfigPtr s"
proof -
  have d: "case Port_setPinDirection Pin dir s of
      Inl f \<Rightarrow> Port_Status s \<noteq> PORT_NOT_INITIALIZED \<and> Port_ConfigPtr s = None
    | Inr s' \<Rightarrow> Port_Status s' = Port_Status s \<and> Port_ConfigPtr s' = Port_ConfigPtr s"
    by (simp add: Port_setPinDirection_def Let_def Det_ReportError_fields SET_BIT_fields
        CLEAR_BIT_fields unlock_commit_frame split: option.splits)
  have r: "case Port_RefreshPortDirection s of
      Inl f \<Rightarrow> Port_Status s \<noteq> PORT_NOT_INITIALIZED \<and> Port_ConfigPtr s = None
    | Inr s' \<Rightarrow> Port_Status s' = Port_Status s \<and> Port_ConfigPtr s' = Port_ConfigPtr s"
    by (simp add: Port_RefreshPortDirection_def Det_ReportError_fields Port_Refresh_loop_frame
        split: option.splits)
  have m: "case Port_SetPinMode Pin m s of
      Inl f \<Rightarrow> Port_Status s \<noteq> PORT_NOT_INITIALIZED \<and> Port_ConfigPtr s = None
    | Inr s' \<Rightarrow> Port_Status s' = Port_Status s \<and> Port_ConfigPtr s' = Port_ConfigPtr s"
    by (simp add: Port_SetPinMode_def Let_def Det_ReportError_fields mode_DIO_frame
        unlock_commit_frame split: option.splits)
  have v: "Port_Status (snd (Port_GetVersionInfo versioninfo s)) = Port_Status s \<and>
     Port_ConfigPtr (snd (Port_GetVersionInfo versioninfo s)) = Port_ConfigPtr s"
    by (simp add: Port_GetVersionInfo_def Det_ReportError_fields split: option.splits)
  from d r m v show ?thesis by blast
qed

section \<open>Claims about Port_Init\<close>

text \<open>
  C2. The table \<open>cfg_port6\<close> has a first entry with port number 6. On it the loop body
  of \<open>Port_Init\<close> first sets bit 6 of the clock-gate register and only then reaches the
  \<^verbatim>\<open>default\<close> of the port switch, which reports \<open>PORT_E_PARAM_PIN\<close> and continues with
  the second entry: the entry with the unrecognised port does contribute a register write.
\<close>

theorem Port_Init_port6_clock_write:
  "5 < Port_Num (Pins cfg_port6 ! 0) \<and>
   new_writes (Port_State_start (\<lambda>r. 0))
     (snd (Port_Init_entry (Pins cfg_port6 ! 0) (0, Port_State_start (\<lambda>r. 0))))
     = [(SYSCTL_RCGCGPIO_REG, 0x40)] \<and>
   writes (Port_Init (Some cfg_port6) (Port_State_start (\<lambda>r. 0))) =
     [(SYSCTL_RCGCGPIO_REG, 0x40), (SYSCTL_RCGCGPIO_REG, 0x60),
      (GPIO GPIO_PORTF_BASE_ADDRESS PORT_DIR_REG_OFFSET, 0),
      (GPIO GPIO_PORTF_BASE_ADDRESS PORT_PULL_UP_REG_OFFSET, 0x10),
      (GPIO GPIO_PORTF_BASE_ADDRESS PORT_PULL_DOWN_REG_OFFSET, 0),
      (GPIO GPIO_PORTF_BASE_ADDRESS PORT_ANALOG_MODE_SEL_REG_OFFSET, 0),
      (GPIO GPIO_PORTF_BASE_ADDRESS PORT_ALT_FUNC_REG_OFFSET, 0),
      (GPIO GPIO_PORTF_BASE_ADDRESS PORT_CTL_REG_OFFSET, 0),
      (GPIO GPIO_PORTF_BASE_ADDRESS PORT_DIGITAL_ENABLE_REG_OFFSET, 0x10)] \<and>
   det (Port_Init (Some cfg_port6) (Port_State_start (\<lambda>r. 0))) =
     [(PORT_MODULE_ID, PORT_INSTANCE_ID, PORT_INIT_SID, PORT_E_PARAM_PIN)]"
  by (simp add: cfg_port6_def Port_State_start_def new_writes_def Port_services Port_steps
      port_base_def is_locked_pin_def Port_consts upt_rec)

text \<open>
  C4, as stated, fails: with the pull-up bit of PF4 set beforehand, \<open>Port_Init\<close> on an
  entry for PF4 with direction IN and resistor OFF leaves the pull-up bit set.
\<close>

theorem Port_Init_resistor_off_counterexample:
  "port_base (Port_Num (Pins cfg_resistor_off ! 1)) = Some GPIO_PORTF_BASE_ADDRESS \<and>
   Ch_Num (Pins cfg_resistor_off ! 1) = 4 \<and>
   Direction (Pins cfg_resistor_off ! 1) = PORT_PIN_IN \<and>
   Resistor (Pins cfg_resistor_off ! 1) = RESISTOR_OFF \<and>
   bit (regs (Port_Init (Some cfg_resistor_off)
               (Port_State_start ((\<lambda>r. 0)(GPIO GPIO_PORTF_BASE_ADDRESS PORT_PULL_UP_REG_OFFSET := 0x10))))
          (GPIO GPIO_PORTF_BASE_ADDRESS PORT_PULL_UP_REG_OFFSET)) 4"
  by (simp add: cfg_resistor_off_def Port_State_start_def Port_services Port_steps
      port_base_def is_locked_pin_def Port_consts upt_rec)

text \<open>
  C4, amended. In \<open>Port_Init\<close>, an entry with a valid port, direction IN and resistor OFF
  has its direction bit cleared; neither the pull-up nor the pull-down register is written
  for it, so both resistor bits keep the value they had.
\<close>

theorem Port_Init_entry_input_resistor_off:
  assumes "port_base (Port_Num pin) = Some b"
    and "Direction pin = PORT_PIN_IN"
    and "Resistor pin = RESISTOR_OFF"
  shows "regs (snd (Port_Init_entry pin (m, s))) (GPIO b PORT_DIR_REG_OFFSET)
           = regs s (GPIO b PORT_DIR_REG_OFFSET) AND NOT (push_bit (unat (Ch_Num pin)) 1) \<and>
         \<not> bit (regs (snd (Port_Init_entry pin (m, s))) (GPIO b PORT_DIR_REG_OFFSET))
               (unat (Ch_Num pin)) \<and>
         GPIO b PORT_PULL_UP_REG_OFFSET
           \<notin> fst ` set (new_writes s (snd (Port_Init_entry pin (m, s)))) \<and>
         GPIO b PORT_PULL_DOWN_REG_OFFSET
           \<notin> fst ` set (new_writes s (snd (Port_Init_entry pin (m, s)))) \<and>
         regs (snd (Port_Init_entry pin (m, s))) (GPIO b PORT_PULL_UP_REG_OFFSET)
           = regs s (GPIO b PORT_PULL_UP_REG_OFFSET) \<and>
         regs (snd (Port_Init_entry pin (m, s))) (GPIO b PORT_PULL_DOWN_REG_OFFSET)
           = regs s (GPIO b PORT_PULL_DOWN_REG_OFFSET)"
  using assms
  by (simp add: Port_steps new_writes_def Port_consts bit_clear_mask)

theorem Port_Init_entry_input_resistor_off_witness:
  "port_base (Port_Num (Pins cfg_resistor_off ! 1)) = Some GPIO_PORTF_BASE_ADDRESS \<and>
   Direction (Pins cfg_resistor_off ! 1) = PORT_PIN_IN \<and>
   Resistor (Pins cfg_resistor_off ! 1) = RESISTOR_OFF \<and>
   \<not> bit (regs (snd (Port_Init_entry (Pins cfg_resistor_off ! 1)
                      (0, Port_State_start (\<lambda>r. 0xFF))))
            (GPIO GPIO_PORTF_BASE_ADDRESS PORT_DIR_REG_OFFSET)) 4 \<and>
   regs (snd (Port_Init_entry (Pins cfg_resistor_off ! 1) (0, Port_State_start (\<lambda>r. 0xFF))))
     (GPIO GPIO_PORTF_BASE_ADDRESS PORT_PULL_UP_REG_OFFSET) = 0xFF"
proof -
  have p: "port_base (Port_Num (Pins cfg_resistor_off ! 1)) = Some GPIO_PORTF_BASE_ADDRESS"
    by (simp add: cfg_resistor_off_def port_base_def)
  have d: "Direction (Pins cfg_resistor_off ! 1) = PORT_PIN_IN"
    by (simp add: cfg_resistor_off_def)
  have r: "Resistor (Pins cfg_resistor_off ! 1) = RESISTOR_OFF"
    by (simp add: cfg_resistor_off_def)
  have c: "unat (Ch_Num (Pins cfg_resistor_off ! 1)) = 4"
    by (simp add: cfg_resistor_off_def)
  from Port_Init_entry_input_resistor_off [OF p d r, of 0 "Port_State_start (\<lambda>r. 0xFF)"] p d r c
  show ?thesis
    by (simp add: Port_State_start_def)
qed

section \<open>Claims about the direction argument\<close>

text \<open>
  C9. Every direction other than \<open>PORT_PIN_OUT\<close> is treated as input. When
  \<open>Port_setPinDirection\<close> passes its guards and resolves the port, such a direction
  argument makes it clear the direction bit: its last write is the direction register with
  that bit cleared. In the loop body of \<open>Port_Init\<close>, an entry with a valid port and such
  a \<open>Direction\<close> field takes the input path: the direction bit is cleared, the resistor
  registers are programmed from the \<open>Resistor\<close> field, and the data register is neither
  written nor changed.
\<close>

theorem non_OUT_direction_is_input:
  "(Direction' \<noteq> PORT_PIN_OUT \<and> Port_Status s \<noteq> PORT_NOT_INITIALIZED \<and>
    unat Pin < PORT_CONFIGURED_CHANNELS \<and> Port_ConfigPtr s = Some cfg \<and>
    Direction_Changeable (Pins cfg ! unat Pin) \<noteq> FALSE \<and>
    port_base (Port_Num (Pins cfg ! unat Pin)) = Some b \<longrightarrow>
    (\<exists>s'. Port_setPinDirection Pin Direction' s = Inr s' \<and>
       regs s' (GPIO b PORT_DIR_REG_OFFSET)
         = regs s (GPIO b PORT_DIR_REG_OFFSET)
             AND NOT (push_bit (unat (Ch_Num (Pins cfg ! unat Pin))) 1) \<and>
       \<not> bit (regs s' (GPIO b PORT_DIR_REG_OFFSET)) (unat (Ch_Num (Pins cfg ! unat Pin))) \<and>
       last (writes s') = (GPIO b PORT_DIR_REG_OFFSET, regs s' (GPIO b PORT_DIR_REG_OFFSET))))
   \<and>
   (Direction pin \<noteq> PORT_PIN_OUT \<and> port_base (Port_Num pin) = Some b' \<longrightarrow>
    regs (snd (Port_Init_entry pin (m, t))) (GPIO b' PORT_DIR_REG_OFFSET)
      = regs t (GPIO b' PORT_DIR_REG_OFFSET) AND NOT (push_bit (unat (Ch_Num pin)) 1) \<and>
    \<not> bit (regs (snd (Port_Init_entry pin (m, t))) (GPIO b' PORT_DIR_REG_OFFSET))
          (unat (Ch_Num pin)) \<and>
    regs (snd (Port_Init_entry pin (m, t))) (GPIO b' PORT_PULL_UP_REG_OFFSET)
      = (if Resistor pin = PULL_UP
         then regs t (GPIO b' PORT_PULL_UP_REG_OFFSET) OR push_bit (unat (Ch_Num pin)) 1
         else if Resistor pin = PULL_DOWN
         then regs t (GPIO b' PORT_PULL_UP_REG_OFFSET) AND NOT (push_bit (unat (Ch_Num pin)) 1)
         else regs t (GPIO b' PORT_PULL_UP_REG_OFFSET)) \<and>
    regs (snd (Port_Init_entry pin (m, t))) (GPIO b' PORT_PULL_DOWN_REG_OFFSET)
      = (if Resistor pin = PULL_UP
         then regs t (GPIO b' PORT_PULL_DOWN_REG_OFFSET) AND NOT (push_bit (unat (Ch_Num pin)) 1)
         else if Resistor pin = PULL_DOWN
         then regs t (GPIO b' PORT_PULL_DOWN_REG_OFFSET) OR push_bit (unat (Ch_Num pin)) 1
         else regs t (GPIO b' PORT_PULL_DOWN_REG_OFFSET)) \<and>
    GPIO b' PORT_DATA_REG_OFFSET \<notin> fst ` set (new_writes t (snd (Port_Init_entry pin (m, t)))) \<and>
    regs (snd (Port_Init_entry pin (m, t))) (GPIO b' PORT_DATA_REG_OFFSET)
      = regs t (GPIO b' PORT_DATA_REG_OFFSET))"
proof (intro conjI impI)
  assume a: "Direction' \<noteq> PORT_PIN_OUT \<and> Port_Status s \<noteq> PORT_NOT_INITIALIZED \<and>
    unat Pin < PORT_CONFIGURED_CHANNELS \<and> Port_ConfigPtr s = Some cfg \<and>
    Direction_Changeable (Pins cfg ! unat Pin) \<noteq> FALSE \<and>
    port_base (Port_Num (Pins cfg ! unat Pin)) = Some b"
  then show "\<exists>s'. Port_setPinDirection Pin Direction' s = Inr s' \<and>
       regs s' (GPIO b PORT_DIR_REG_OFFSET)
         = regs s (GPIO b PORT_DIR_REG_OFFSET)
             AND NOT (push_bit (unat (Ch_Num (Pins cfg ! unat Pin))) 1) \<and>
       \<not> bit (regs s' (GPIO b PORT_DIR_REG_OFFSET)) (unat (Ch_Num (Pins cfg ! unat Pin))) \<and>
       last (writes s') = (GPIO b PORT_DIR_REG_OFFSET, regs s' (GPIO b PORT_DIR_REG_OFFSET))"
    by (simp add: Port_setPinDirection_def Port_steps bit_clear_mask)
next
  assume "Direction pin \<noteq> PORT_PIN_OUT \<and> port_base (Port_Num pin) = Some b'"
  then have d: "Direction pin \<noteq> PORT_PIN_OUT" and p: "port_base (Port_Num pin) = Some b'"
    by simp_all
  from d p show "regs (snd (Port_Init_entry pin (m, t))) (GPIO b' PORT_DIR_REG_OFFSET)
      = regs t (GPIO b' PORT_DIR_REG_OFFSET) AND NOT (push_bit (unat (Ch_Num pin)) 1)"
    by (simp add: Port_steps)
  from d p show "\<not> bit (regs (snd (Port_Init_entry pin (m, t))) (GPIO b' PORT_DIR_REG_OFFSET))
          (unat (Ch_Num pin))"
    by (simp add: Port_steps bit_clear_mask)
  from d p show "regs (snd (Port_Init_entry pin (m, t))) (GPIO b' PORT_PULL_UP_REG_OFFSET)
      = (if Resistor pin = PULL_UP
         then regs t (GPIO b' PORT_PULL_UP_REG_OFFSET) OR push_bit (unat (Ch_Num pin)) 1
         else if Resistor pin = PULL_DOWN
         then regs t (GPIO b' PORT_PULL_UP_REG_OFFSET) AND NOT (push_bit (unat (Ch_Num pin)) 1)
         else regs t (GPIO b' PORT_PULL_UP_REG_OFFSET))"
    by (simp add: Port_steps)
  from d p show "regs (snd (Port_Init_entry pin (m, t))) (GPIO b' PORT_PULL_DOWN_REG_OFFSET)
      = (if Resistor pin = PULL_UP
         then regs t (GPIO b' PORT_PULL_DOWN_REG_OFFSET) AND NOT (push_bit (unat (Ch_Num pin)) 1)
         else if Resistor pin = PULL_DOWN
         then regs t (GPIO b' PORT_PULL_DOWN_REG_OFFSET) OR push_bit (unat (Ch_Num pin)) 1
         else regs t (GPIO b' PORT_PULL_DOWN_REG_OFFSET))"
    by (simp add: Port_steps PULL_UP_def PULL_DOWN_def)
  from d p show "GPIO b' PORT_DATA_REG_OFFSET
      \<notin> fst ` set (new_writes t (snd (Port_Init_entry pin (m, t))))"
    by (simp add: Port_steps new_writes_def)
  from d p show "regs (snd (Port_Init_entry pin (m, t))) (GPIO b' PORT_DATA_REG_OFFSET)
      = regs t (GPIO b' PORT_DATA_REG_OFFSET)"
    by (simp add: Port_steps)
qed

theorem non_OUT_direction_is_input_witness:
  "((7 :: Port_PinDirectionType) \<noteq> PORT_PIN_OUT \<and>
    Port_Status (Port_State_ready Port_Configuration (\<lambda>r. 0xFF)) \<noteq> PORT_NOT_INITIALIZED \<and>
    unat (0 :: uint8) < PORT_CONFIGURED_CHANNELS \<and>
    Port_ConfigPtr (Port_State_ready Port_Configuration (\<lambda>r. 0xFF)) = Some Port_Configuration \<and>
    Direction_Changeable (Pins Port_Configuration ! unat (0 :: uint8)) \<noteq> FALSE \<and>
    port_base (Port_Num (Pins Port_Configuration ! unat (0 :: uint8)))
      = Some GPIO_PORTF_BASE_ADDRESS) \<and>
   (\<exists>s'. Port_setPinDirection 0 7 (Port_State_ready Port_Configuration (\<lambda>r. 0xFF)) = Inr s' \<and>
      regs s' (GPIO GPIO_PORTF_BASE_ADDRESS PORT_DIR_REG_OFFSET) = 0xFD) \<and>
   (Direction (Pins Port_Configuration ! 1) \<noteq> PORT_PIN_OUT \<and>
    port_base (Port_Num (Pins Port_Configuration ! 1)) = Some GPIO_PORTF_BASE_ADDRESS) \<and>
   regs (snd (Port_Init_entry (Pins Port_Configuration ! 1) (0, Port_State_start (\<lambda>r. 0xFF))))
     (GPIO GPIO_PORTF_BASE_ADDRESS PORT_DIR_REG_OFFSET) = 0xEF"
proof -
  have h1: "(7 :: Port_PinDirectionType) \<noteq> PORT_PIN_OUT \<and>
    Port_Status (Port_State_ready Port_Configuration (\<lambda>r. 0xFF)) \<noteq> PORT_NOT_INITIALIZED \<and>
    unat (0 :: uint8) < PORT_CONFIGURED_CHANNELS \<and>
    Port_ConfigPtr (Port_State_ready Port_Configuration (\<lambda>r. 0xFF)) = Some Port_Configuration \<and>
    Direction_Changeable (Pins Port_Configuration ! unat (0 :: uint8)) \<noteq> FALSE \<and>
    port_base (Port_Num (Pins Port_Configuration ! unat (0 :: uint8)))
      = Some GPIO_PORTF_BASE_ADDRESS"
    by (simp add: Port_State_ready_def Port_Configuration_def port_base_def Port_consts)
  have h2: "Direction (Pins Port_Configuration ! 1) \<noteq> PORT_PIN_OUT \<and>
    port_base (Port_Num (Pins Port_Configuration ! 1)) = Some GPIO_PORTF_BASE_ADDRESS"
    by (simp add: Port_Configuration_def port_base_def Port_consts)
  have c0: "unat (Ch_Num (Pins Port_Configuration ! unat (0 :: uint8))) = 1"
    and c1: "unat (Ch_Num (Pins Port_Configuration ! 1)) = 4"
    by (simp_all add: Port_Configuration_def)
  have r: "regs (Port_State_ready Port_Configuration (\<lambda>r. 0xFF)) = (\<lambda>r. 0xFF)"
    "regs (Port_State_start (\<lambda>r. 0xFF)) = (\<lambda>r. 0xFF)"
    by (simp_all add: Port_State_ready_def Port_State_start_def)
  from non_OUT_direction_is_input
    [where Direction' = 7 and s = "Port_State_ready Port_Configuration (\<lambda>r. 0xFF)"
       and Pin = 0 and cfg = Port_Configuration and b = GPIO_PORTF_BASE_ADDRESS
       and pin = "Pins Port_Configuration ! 1" and b' = GPIO_PORTF_BASE_ADDRESS
       and m = 0 and t = "Port_State_start (\<lambda>r. 0xFF)"] h1 h2
  show ?thesis
    unfolding c0 c1 r by auto
qed

section \<open>Claims about Port_SetPinMode and the validation of entries\<close>

text \<open>
  C1, as stated, fails on the hardware-locked pins: for the mode-changeable entry of PF0
  and the mode value 1, \<open>Port_SetPinMode\<close> writes the key to the lock register of port F
  and sets commit bit 0 before it reaches the \<^verbatim>\<open>default\<close> of the mode switch.
\<close>

theorem Port_SetPinMode_PF0_counterexample:
  "Port_Status (Port_State_ready cfg_PF0 (\<lambda>r. 0)) = PORT_INITIALIZED \<and>
   unat (0 :: uint8) < PORT_CONFIGURED_CHANNELS \<and>
   Mode_Changeable (Pins cfg_PF0 ! unat (0 :: uint8)) = TRUE \<and>
   (1 :: uint8) \<noteq> PIN_MODE_DIO \<and>
   Port_SetPinMode 0 1 (Port_State_ready cfg_PF0 (\<lambda>r. 0)) =
     Inr ((Port_State_ready cfg_PF0 (\<lambda>r. 0))
       \<lparr>regs := (\<lambda>r. 0)(GPIO GPIO_PORTF_BASE_ADDRESS PORT_LOCK_REG_OFFSET := 0x4C4F434B,
                         GPIO GPIO_PORTF_BASE_ADDRESS PORT_COMMIT_REG_OFFSET := 1),
        writes := [(GPIO GPIO_PORTF_BASE_ADDRESS PORT_LOCK_REG_OFFSET, 0x4C4F434B),
                   (GPIO GPIO_PORTF_BASE_ADDRESS PORT_COMMIT_REG_OFFSET, 1)],
        det := [(PORT_MODULE_ID, PORT_INSTANCE_ID, PORT_SET_PIN_MODE_SID,
                 PORT_E_PARAM_INVALID_MODE)]\<rparr>)"
  by (simp add: cfg_PF0_def Port_State_ready_def Port_SetPinMode_def Port_steps port_base_def
      is_locked_pin_def Port_consts)

text \<open>
  C1, amended. For an initialised driver, an in-bounds pin identifier whose entry has
  \<open>Mode_Changeable\<close> true and a port number in 0..5, and a mode other than
  \<open>PIN_MODE_DIO\<close>, \<open>Port_SetPinMode\<close> reports \<open>PORT_E_PARAM_INVALID_MODE\<close>
  (UnsupportedMode) and nothing else, writes no register other than the lock and commit
  registers of the entry's port (so no analog, alternate-function, control or
  digital-enable register, and every other register keeps its value), and for every pin
  other than PD7 and PF0 it performs no register write at all.
\<close>

theorem Port_SetPinMode_unsupported_mode:
  assumes "Port_Status s \<noteq> PORT_NOT_INITIALIZED"
    and "unat Pin < PORT_CONFIGURED_CHANNELS"
    and "Port_ConfigPtr s = Some cfg"
    and "Mode_Changeable (Pins cfg ! unat Pin) \<noteq> FALSE"
    and "port_base (Port_Num (Pins cfg ! unat Pin)) = Some b"
    and "Mode' \<noteq> PIN_MODE_DIO"
  shows "\<exists>s'. Port_SetPinMode Pin Mode' s = Inr s' \<and>
           new_reports s s' = [(PORT_MODULE_ID, PORT_INSTANCE_ID, PORT_SET_PIN_MODE_SID,
                                PORT_E_PARAM_INVALID_MODE)] \<and>
           fst ` set (new_writes s s')
             \<subseteq> {GPIO b PORT_LOCK_REG_OFFSET, GPIO b PORT_COMMIT_REG_OFFSET} \<and>
           (\<forall>r. r \<noteq> GPIO b PORT_LOCK_REG_OFFSET \<and> r \<noteq> GPIO b PORT_COMMIT_REG_OFFSET
                \<longrightarrow> regs s' r = regs s r) \<and>
           (\<not> is_locked_pin (Port_Num (Pins cfg ! unat Pin)) (Ch_Num (Pins cfg ! unat Pin))
              \<longrightarrow> writes s' = writes s \<and> regs s' = regs s)"
  using assms
  by (simp add: Port_SetPinMode_def Port_steps new_reports_def new_writes_def)

theorem Port_SetPinMode_unsupported_mode_witness:
  "\<exists>s'. Port_SetPinMode 1 3 (Port_State_ready Port_Configuration (\<lambda>r. 0xFF)) = Inr s' \<and>
     new_reports (Port_State_ready Port_Configuration (\<lambda>r. 0xFF)) s'
       = [(PORT_MODULE_ID, PORT_INSTANCE_ID, PORT_SET_PIN_MODE_SID, PORT_E_PARAM_INVALID_MODE)] \<and>
     writes s' = [] \<and> regs s' = (\<lambda>r. 0xFF)"
proof -
  have h: "Port_Status (Port_State_ready Port_Configuration (\<lambda>r. 0xFF)) \<noteq> PORT_NOT_INITIALIZED"
    "unat (1 :: uint8) < PORT_CONFIGURED_CHANNELS"
    "Port_ConfigPtr (Port_State_ready Port_Configuration (\<lambda>r. 0xFF)) = Some Port_Configuration"
    "Mode_Changeable (Pins Port_Configuration ! unat (1 :: uint8)) \<noteq> FALSE"
    "port_base (Port_Num (Pins Port_Configuration ! unat (1 :: uint8)))
       = Some GPIO_PORTF_BASE_ADDRESS"
    "(3 :: uint8) \<noteq> PIN_MODE_DIO"
    by (simp_all add: Port_State_ready_def Port_Configuration_def port_base_def Port_consts)
  have l: "\<not> is_locked_pin (Port_Num (Pins Port_Configuration ! unat (1 :: uint8)))
      (Ch_Num (Pins Port_Configuration ! unat (1 :: uint8)))"
    by (simp add: Port_Configuration_def is_locked_pin_def)
  have r: "writes (Port_State_ready Port_Configuration (\<lambda>r. 0xFF)) = []"
    "regs (Port_State_ready Port_Configuration (\<lambda>r. 0xFF)) = (\<lambda>r. 0xFF)"
    by (simp_all add: Port_State_ready_def)
  from Port_SetPinMode_unsupported_mode [OF h] l r show ?thesis
    by auto
qed

text \<open>
  C3, as stated, fails: no service checks the channel number. With an entry for port A
  whose channel number is 8, \<open>Port_setPinDirection\<close> reports nothing and sets bit 8 of the
  direction register of port A.
\<close>

theorem channel_not_validated_counterexample:
  "\<not> Ch_Num (Pins cfg_channel8 ! unat (0 :: uint8)) \<le> 7 \<and>
   Port_setPinDirection 0 PORT_PIN_OUT (Port_State_ready cfg_channel8 (\<lambda>r. 0)) =
     Inr ((Port_State_ready cfg_channel8 (\<lambda>r. 0))
       \<lparr>regs := (\<lambda>r. 0)(GPIO GPIO_PORTA_BASE_ADDRESS PORT_DIR_REG_OFFSET := 0x100),
        writes := [(GPIO GPIO_PORTA_BASE_ADDRESS PORT_DIR_REG_OFFSET, 0x100)],
        det := []\<rparr>)"
  by (simp add: cfg_channel8_def Port_State_ready_def Port_setPinDirection_def Port_steps
      port_base_def is_locked_pin_def Port_consts)

text \<open>
  C3, amended. The port number of every entry used is validated against 0..5; the channel
  number is not validated by any service. \<open>Port_setPinDirection\<close> and \<open>Port_SetPinMode\<close>
  (past their guards) and the loop body of \<open>Port_RefreshPortDirection\<close> (on an entry with
  fixed direction) report \<open>PORT_E_PARAM_PIN\<close> (InvalidPin) for an entry whose port number
  exceeds 5 and write no register. The loop body of \<open>Port_Init\<close> reports
  \<open>PORT_E_PARAM_PIN\<close> for such an entry and writes no register of any GPIO port for it.
\<close>

theorem port_number_validated:
  "(Port_Status s \<noteq> PORT_NOT_INITIALIZED \<and> unat Pin < PORT_CONFIGURED_CHANNELS \<and>
    Port_ConfigPtr s = Some cfg \<and> 5 < Port_Num (Pins cfg ! unat Pin) \<longrightarrow>
      (Direction_Changeable (Pins cfg ! unat Pin) \<noteq> FALSE \<longrightarrow>
         (\<exists>s'. Port_setPinDirection Pin Direction' s = Inr s' \<and>
            new_reports s s' = [(PORT_MODULE_ID, PORT_INSTANCE_ID, PORT_SET_PIN_DIRECTION_SID,
                                 PORT_E_PARAM_PIN)] \<and>
            writes s' = writes s \<and> regs s' = regs s)) \<and>
      (Mode_Changeable (Pins cfg ! unat Pin) \<noteq> FALSE \<longrightarrow>
         (\<exists>s'. Port_SetPinMode Pin Mode' s = Inr s' \<and>
            new_reports s s' = [(PORT_MODULE_ID, PORT_INSTANCE_ID, PORT_SET_PIN_MODE_SID,
                                 PORT_E_PARAM_PIN)] \<and>
            writes s' = writes s \<and> regs s' = regs s)))
   \<and>
   (5 < Port_Num pin \<and> Direction_Changeable pin = FALSE \<longrightarrow>
      new_reports t (Port_Refresh_entry pin t)
        = [(PORT_MODULE_ID, PORT_INSTANCE_ID, PORT_REFRESH_PIN_DIRECTION_SID, PORT_E_PARAM_PIN)] \<and>
      writes (Port_Refresh_entry pin t) = writes t \<and>
      regs (Port_Refresh_entry pin t) = regs t)
   \<and>
   (5 < Port_Num pin \<longrightarrow>
      new_reports t (snd (Port_Init_entry pin (m, t)))
        = [(PORT_MODULE_ID, PORT_INSTANCE_ID, PORT_INIT_SID, PORT_E_PARAM_PIN)] \<and>
      (\<forall>base off. GPIO base off \<notin> fst ` set (new_writes t (snd (Port_Init_entry pin (m, t)))) \<and>
         regs (snd (Port_Init_entry pin (m, t))) (GPIO base off) = regs t (GPIO base off)))"
proof (intro conjI impI)
  assume a: "Port_Status s \<noteq> PORT_NOT_INITIALIZED \<and> unat Pin < PORT_CONFIGURED_CHANNELS \<and>
    Port_ConfigPtr s = Some cfg \<and> 5 < Port_Num (Pins cfg ! unat Pin)"
  then have n: "port_base (Port_Num (Pins cfg ! unat Pin)) = None"
    by (simp add: port_base_None_iff)
  {
    assume "Direction_Changeable (Pins cfg ! unat Pin) \<noteq> FALSE"
    with a n show "\<exists>s'. Port_setPinDirection Pin Direction' s = Inr s' \<and>
            new_reports s s' = [(PORT_MODULE_ID, PORT_INSTANCE_ID, PORT_SET_PIN_DIRECTION_SID,
                                 PORT_E_PARAM_PIN)] \<and>
            writes s' = writes s \<and> regs s' = regs s"
      by (simp add: Port_setPinDirection_def Det_ReportError_def new_reports_def)
  }
  {
    assume "Mode_Changeable (Pins cfg ! unat Pin) \<noteq> FALSE"
    with a n show "\<exists>s'. Port_SetPinMode Pin Mode' s = Inr s' \<and>
            new_reports s s' = [(PORT_MODULE_ID, PORT_INSTANCE_ID, PORT_SET_PIN_MODE_SID,
                                 PORT_E_PARAM_PIN)] \<and>
            writes s' = writes s \<and> regs s' = regs s"
      by (simp add: Port_SetPinMode_def Det_ReportError_def new_reports_def)
  }
next
  assume a: "5 < Port_Num pin \<and> Direction_Changeable pin = FALSE"
  then have n: "port_base (Port_Num pin) = None"
    by (simp add: port_base_None_iff)
  from a n show "new_reports t (Port_Refresh_entry pin t)
        = [(PORT_MODULE_ID, PORT_INSTANCE_ID, PORT_REFRESH_PIN_DIRECTION_SID, PORT_E_PARAM_PIN)]"
    and "writes (Port_Refresh_entry pin t) = writes t"
    and "regs (Port_Refresh_entry pin t) = regs t"
    by (simp_all add: Port_Refresh_entry_def Det_ReportError_def new_reports_def)
next
  assume a: "5 < Port_Num pin"
  then have n: "port_base (Port_Num pin) = None"
    by (simp add: port_base_None_iff)
  from n show "new_reports t (snd (Port_Init_entry pin (m, t)))
        = [(PORT_MODULE_ID, PORT_INSTANCE_ID, PORT_INIT_SID, PORT_E_PARAM_PIN)]"
    by (simp add: Port_Init_entry_def Port_Init_clock_def write_reg_def Det_ReportError_def
        new_reports_def)
  from n show "\<forall>base off.
      GPIO base off \<notin> fst ` set (new_writes t (snd (Port_Init_entry pin (m, t)))) \<and>
      regs (snd (Port_Init_entry pin (m, t))) (GPIO base off) = regs t (GPIO base off)"
    by (simp add: Port_Init_entry_def Port_Init_clock_def write_reg_def Det_ReportError_def
        new_writes_def)
qed

theorem port_number_validated_witness:
  "(\<exists>s'. Port_setPinDirection 0 PORT_PIN_OUT (Port_State_ready cfg_port6 (\<lambda>r. 0xFF)) = Inr s' \<and>
      new_reports (Port_State_ready cfg_port6 (\<lambda>r. 0xFF)) s'
        = [(PORT_MODULE_ID, PORT_INSTANCE_ID, PORT_SET_PIN_DIRECTION_SID, PORT_E_PARAM_PIN)] \<and>
      writes s' = []) \<and>
   (\<exists>s'. Port_SetPinMode 0 PIN_MODE_DIO (Port_State_ready cfg_port6 (\<lambda>r. 0xFF)) = Inr s' \<and>
      new_reports (Port_State_ready cfg_port6 (\<lambda>r. 0xFF)) s'
        = [(PORT_MODULE_ID, PORT_INSTANCE_ID, PORT_SET_PIN_MODE_SID, PORT_E_PARAM_PIN)] \<and>
      writes s' = []) \<and>
   writes (Port_Refresh_entry ((Pins cfg_port6 ! 0)\<lparr>Direction_Changeable := FALSE\<rparr>)
            (Port_State_ready cfg_port6 (\<lambda>r. 0xFF))) = [] \<and>
   regs (snd (Port_Init_entry ((Pins cfg_port6 ! 0)\<lparr>Direction_Changeable := FALSE\<rparr>)
                (0, Port_State_ready cfg_port6 (\<lambda>r. 0xFF))))
     (GPIO GPIO_PORTF_BASE_ADDRESS PORT_DIR_REG_OFFSET) = 0xFF"
proof -
  have h: "Port_Status (Port_State_ready cfg_port6 (\<lambda>r. 0xFF)) \<noteq> PORT_NOT_INITIALIZED \<and>
      unat (0 :: uint8) < PORT_CONFIGURED_CHANNELS \<and>
      Port_ConfigPtr (Port_State_ready cfg_port6 (\<lambda>r. 0xFF)) = Some cfg_port6 \<and>
      5 < Port_Num (Pins cfg_port6 ! unat (0 :: uint8))"
    by (simp add: Port_State_ready_def cfg_port6_def Port_consts)
  have c: "Direction_Changeable (Pins cfg_port6 ! unat (0 :: uint8)) \<noteq> FALSE"
    "Mode_Changeable (Pins cfg_port6 ! unat (0 :: uint8)) \<noteq> FALSE"
    by (simp_all add: cfg_port6_def Port_consts)
  have e: "5 < Port_Num ((Pins cfg_port6 ! 0)\<lparr>Direction_Changeable := FALSE\<rparr>)"
    "Direction_Changeable ((Pins cfg_port6 ! 0)\<lparr>Direction_Changeable := FALSE\<rparr>) = FALSE"
    by (simp_all add: cfg_port6_def)
  have r: "writes (Port_State_ready cfg_port6 (\<lambda>r. 0xFF)) = []"
    "regs (Port_State_ready cfg_port6 (\<lambda>r. 0xFF)) = (\<lambda>r. 0xFF)"
    by (simp_all add: Port_State_ready_def)
  from port_number_validated
    [where s = "Port_State_ready cfg_port6 (\<lambda>r. 0xFF)" and Pin = 0 and cfg = cfg_port6
       and Direction' = PORT_PIN_OUT and Mode' = PIN_MODE_DIO
       and pin = "(Pins cfg_port6 ! 0)\<lparr>Direction_Changeable := FALSE\<rparr>"
       and t = "Port_State_ready cfg_port6 (\<lambda>r. 0xFF)" and m = 0] h c e
  show ?thesis
    unfolding r by auto
qed

section \<open>Claims about the hardware-locked pins\<close>

text \<open>
  C6. For a hardware-locked pin (port 3 channel 7, port 5 channel 0) the writes of each
  operation that modifies its direction bit are ordered: the key \<open>0x4C4F434B\<close> goes to the
  lock register, then the commit register is written with the bit of the channel set, and
  only then the direction register is written, with the bit of the channel set for OUT and
  cleared otherwise. In the loop body of \<open>Port_Init\<close> only clock-gate writes come before
  the three and no further write of the direction register follows; in the loop body of
  \<open>Port_RefreshPortDirection\<close> (entry with fixed direction) and in
  \<open>Port_setPinDirection\<close> (past its guards) the three writes are all there is.
\<close>

theorem unlock_precedes_direction_write:
  "(is_locked_pin (Port_Num pin) (Ch_Num pin) \<and> port_base (Port_Num pin) = Some b \<longrightarrow>
      (\<exists>clk c d rest.
         new_writes t (snd (Port_Init_entry pin (m, t))) =
           clk @ [(GPIO b PORT_LOCK_REG_OFFSET, 0x4C4F434B), (GPIO b PORT_COMMIT_REG_OFFSET, c),
                  (GPIO b PORT_DIR_REG_OFFSET, d)] @ rest \<and>
         bit c (unat (Ch_Num pin)) \<and>
         bit d (unat (Ch_Num pin)) = (Direction pin = PORT_PIN_OUT) \<and>
         fst ` set clk \<subseteq> {SYSCTL_RCGCGPIO_REG} \<and>
         GPIO b PORT_DIR_REG_OFFSET \<notin> fst ` set rest))
   \<and>
   (is_locked_pin (Port_Num pin) (Ch_Num pin) \<and> port_base (Port_Num pin) = Some b \<and>
    Direction_Changeable pin = FALSE \<longrightarrow>
      (\<exists>c d.
         new_writes t (Port_Refresh_entry pin t) =
           [(GPIO b PORT_LOCK_REG_OFFSET, 0x4C4F434B), (GPIO b PORT_COMMIT_REG_OFFSET, c),
            (GPIO b PORT_DIR_REG_OFFSET, d)] \<and>
         bit c (unat (Ch_Num pin)) \<and>
         bit d (unat (Ch_Num pin)) = (Direction pin = PORT_PIN_OUT)))
   \<and>
   (Port_Status s \<noteq> PORT_NOT_INITIALIZED \<and> unat Pin < PORT_CONFIGURED_CHANNELS \<and>
    Port_ConfigPtr s = Some cfg \<and> Pins cfg ! unat Pin = pin \<and>
    Direction_Changeable pin \<noteq> FALSE \<and>
    is_locked_pin (Port_Num pin) (Ch_Num pin) \<and> port_base (Port_Num pin) = Some b \<longrightarrow>
      (\<exists>s' c d.
         Port_setPinDirection Pin Direction' s = Inr s' \<and>
         new_writes s s' =
           [(GPIO b PORT_LOCK_REG_OFFSET, 0x4C4F434B), (GPIO b PORT_COMMIT_REG_OFFSET, c),
            (GPIO b PORT_DIR_REG_OFFSET, d)] \<and>
         bit c (unat (Ch_Num pin)) \<and>
         bit d (unat (Ch_Num pin)) = (Direction' = PORT_PIN_OUT)))"
proof (intro conjI impI)
  assume a: "is_locked_pin (Port_Num pin) (Ch_Num pin) \<and> port_base (Port_Num pin) = Some b"
  then have l: "is_locked_pin (Port_Num pin) (Ch_Num pin)"
    and p: "port_base (Port_Num pin) = Some b"
    by simp_all
  from l have c32: "unat (Ch_Num pin) < 32"
    by (auto simp add: is_locked_pin_def)
  from Port_Init_entry_locked_writes [OF l p, of t m]
  obtain clk rest where w: "new_writes t (snd (Port_Init_entry pin (m, t))) =
        clk @ [(GPIO b PORT_LOCK_REG_OFFSET, 0x4C4F434B),
               (GPIO b PORT_COMMIT_REG_OFFSET,
                regs t (GPIO b PORT_COMMIT_REG_OFFSET) OR push_bit (unat (Ch_Num pin)) 1),
               (GPIO b PORT_DIR_REG_OFFSET,
                if Direction pin = PORT_PIN_OUT
                then regs t (GPIO b PORT_DIR_REG_OFFSET) OR push_bit (unat (Ch_Num pin)) 1
                else regs t (GPIO b PORT_DIR_REG_OFFSET)
                       AND NOT (push_bit (unat (Ch_Num pin)) 1))] @ rest"
    and k: "fst ` set clk \<subseteq> {SYSCTL_RCGCGPIO_REG}"
    and n: "GPIO b PORT_DIR_REG_OFFSET \<notin> fst ` set rest"
    by blast
  have bc: "bit (regs t (GPIO b PORT_COMMIT_REG_OFFSET) OR push_bit (unat (Ch_Num pin)) 1)
      (unat (Ch_Num pin))"
    using c32 by (simp add: bit_set_mask)
  have bd: "bit (if Direction pin = PORT_PIN_OUT
                then regs t (GPIO b PORT_DIR_REG_OFFSET) OR push_bit (unat (Ch_Num pin)) 1
                else regs t (GPIO b PORT_DIR_REG_OFFSET)
                       AND NOT (push_bit (unat (Ch_Num pin)) 1)) (unat (Ch_Num pin))
      = (Direction pin = PORT_PIN_OUT)"
    using c32 by (simp add: bit_set_mask bit_clear_mask)
  from w k n bc bd
  show "\<exists>clk c d rest.
         new_writes t (snd (Port_Init_entry pin (m, t))) =
           clk @ [(GPIO b PORT_LOCK_REG_OFFSET, 0x4C4F434B), (GPIO b PORT_COMMIT_REG_OFFSET, c),
                  (GPIO b PORT_DIR_REG_OFFSET, d)] @ rest \<and>
         bit c (unat (Ch_Num pin)) \<and>
         bit d (unat (Ch_Num pin)) = (Direction pin = PORT_PIN_OUT) \<and>
         fst ` set clk \<subseteq> {SYSCTL_RCGCGPIO_REG} \<and>
         GPIO b PORT_DIR_REG_OFFSET \<notin> fst ` set rest"
    by blast
next
  assume a: "is_locked_pin (Port_Num pin) (Ch_Num pin) \<and> port_base (Port_Num pin) = Some b \<and>
    Direction_Changeable pin = FALSE"
  then have c32: "unat (Ch_Num pin) < 32"
    by (auto simp add: is_locked_pin_def)
  from a c32 show "\<exists>c d.
         new_writes t (Port_Refresh_entry pin t) =
           [(GPIO b PORT_LOCK_REG_OFFSET, 0x4C4F434B), (GPIO b PORT_COMMIT_REG_OFFSET, c),
            (GPIO b PORT_DIR_REG_OFFSET, d)] \<and>
         bit c (unat (Ch_Num pin)) \<and>
         bit d (unat (Ch_Num pin)) = (Direction pin = PORT_PIN_OUT)"
    by (simp add: Port_Refresh_entry_def unlock_commit_def SET_BIT_def CLEAR_BIT_def
        write_reg_def new_writes_def bit_set_mask bit_clear_mask Let_def)
next
  assume a: "Port_Status s \<noteq> PORT_NOT_INITIALIZED \<and> unat Pin < PORT_CONFIGURED_CHANNELS \<and>
    Port_ConfigPtr s = Some cfg \<and> Pins cfg ! unat Pin = pin \<and>
    Direction_Changeable pin \<noteq> FALSE \<and>
    is_locked_pin (Port_Num pin) (Ch_Num pin) \<and> port_base (Port_Num pin) = Some b"
  then have c32: "unat (Ch_Num pin) < 32"
    by (auto simp add: is_locked_pin_def)
  from a c32 show "\<exists>s' c d.
         Port_setPinDirection Pin Direction' s = Inr s' \<and>
         new_writes s s' =
           [(GPIO b PORT_LOCK_REG_OFFSET, 0x4C4F434B), (GPIO b PORT_COMMIT_REG_OFFSET, c),
            (GPIO b PORT_DIR_REG_OFFSET, d)] \<and>
         bit c (unat (Ch_Num pin)) \<and>
         bit d (unat (Ch_Num pin)) = (Direction' = PORT_PIN_OUT)"
    by (simp add: Port_setPinDirection_def unlock_commit_def SET_BIT_def CLEAR_BIT_def
        write_reg_def new_writes_def bit_set_mask bit_clear_mask Let_def)
qed

theorem unlock_precedes_direction_write_witness:
  "(is_locked_pin (Port_Num (Pins cfg_PF0 ! 0)) (Ch_Num (Pins cfg_PF0 ! 0)) \<and>
    port_base (Port_Num (Pins cfg_PF0 ! 0)) = Some GPIO_PORTF_BASE_ADDRESS) \<and>
   (\<exists>clk c d rest.
      new_writes (Port_State_start (\<lambda>r. 0))
          (snd (Port_Init_entry (Pins cfg_PF0 ! 0) (0, Port_State_start (\<lambda>r. 0)))) =
        clk @ [(GPIO GPIO_PORTF_BASE_ADDRESS PORT_LOCK_REG_OFFSET, 0x4C4F434B),
               (GPIO GPIO_PORTF_BASE_ADDRESS PORT_COMMIT_REG_OFFSET, c),
               (GPIO GPIO_PORTF_BASE_ADDRESS PORT_DIR_REG_OFFSET, d)] @ rest \<and>
      bit c 0 \<and> \<not> bit d 0) \<and>
   (Port_Status (Port_State_ready cfg_PF0 (\<lambda>r. 0)) \<noteq> PORT_NOT_INITIALIZED \<and>
    unat (0 :: uint8) < PORT_CONFIGURED_CHANNELS \<and>
    Port_ConfigPtr (Port_State_ready cfg_PF0 (\<lambda>r. 0)) = Some cfg_PF0 \<and>
    Direction_Changeable (Pins cfg_PF0 ! 0) \<noteq> FALSE) \<and>
   (\<exists>s' c d.
      Port_setPinDirection 0 PORT_PIN_OUT (Port_State_ready cfg_PF0 (\<lambda>r. 0)) = Inr s' \<and>
      new_writes (Port_State_ready cfg_PF0 (\<lambda>r. 0)) s' =
        [(GPIO GPIO_PORTF_BASE_ADDRESS PORT_LOCK_REG_OFFSET, 0x4C4F434B),
         (GPIO GPIO_PORTF_BASE_ADDRESS PORT_COMMIT_REG_OFFSET, c),
         (GPIO GPIO_PORTF_BASE_ADDRESS PORT_DIR_REG_OFFSET, d)] \<and>
      bit c 0 \<and> bit d 0) \<and>
   (is_locked_pin (Port_Num ((Pins cfg_PF0 ! 0)\<lparr>Direction_Changeable := FALSE\<rparr>))
      (Ch_Num ((Pins cfg_PF0 ! 0)\<lparr>Direction_Changeable := FALSE\<rparr>)) \<and>
    port_base (Port_Num ((Pins cfg_PF0 ! 0)\<lparr>Direction_Changeable := FALSE\<rparr>))
      = Some GPIO_PORTF_BASE_ADDRESS \<and>
    Direction_Changeable ((Pins cfg_PF0 ! 0)\<lparr>Direction_Changeable := FALSE\<rparr>) = FALSE) \<and>
   (\<exists>c d.
      new_writes (Port_State_ready cfg_PF0 (\<lambda>r. 0))
          (Port_Refresh_entry ((Pins cfg_PF0 ! 0)\<lparr>Direction_Changeable := FALSE\<rparr>)
             (Port_State_ready cfg_PF0 (\<lambda>r. 0))) =
        [(GPIO GPIO_PORTF_BASE_ADDRESS PORT_LOCK_REG_OFFSET, 0x4C4F434B),
         (GPIO GPIO_PORTF_BASE_ADDRESS PORT_COMMIT_REG_OFFSET, c),
         (GPIO GPIO_PORTF_BASE_ADDRESS PORT_DIR_REG_OFFSET, d)] \<and>
      bit c 0 \<and> \<not> bit d 0)"
proof -
  have l: "is_locked_pin (Port_Num (Pins cfg_PF0 ! 0)) (Ch_Num (Pins cfg_PF0 ! 0)) \<and>
    port_base (Port_Num (Pins cfg_PF0 ! 0)) = Some GPIO_PORTF_BASE_ADDRESS"
    by (simp add: cfg_PF0_def is_locked_pin_def port_base_def)
  have g: "Port_Status (Port_State_ready cfg_PF0 (\<lambda>r. 0)) \<noteq> PORT_NOT_INITIALIZED \<and>
    unat (0 :: uint8) < PORT_CONFIGURED_CHANNELS \<and>
    Port_ConfigPtr (Port_State_ready cfg_PF0 (\<lambda>r. 0)) = Some cfg_PF0 \<and>
    Direction_Changeable (Pins cfg_PF0 ! 0) \<noteq> FALSE"
    by (simp add: Port_State_ready_def cfg_PF0_def Port_consts)
  have v: "unat (Ch_Num (Pins cfg_PF0 ! 0)) = 0" "Direction (Pins cfg_PF0 ! 0) \<noteq> PORT_PIN_OUT"
    "Pins cfg_PF0 ! unat (0 :: uint8) = Pins cfg_PF0 ! 0"
    by (simp_all add: cfg_PF0_def Port_consts)
  note T = unlock_precedes_direction_write
    [where pin = "Pins cfg_PF0 ! 0" and b = GPIO_PORTF_BASE_ADDRESS
       and t = "Port_State_start (\<lambda>r. 0)" and m = 0
       and s = "Port_State_ready cfg_PF0 (\<lambda>r. 0)" and Pin = 0 and cfg = cfg_PF0
       and Direction' = PORT_PIN_OUT]
  from T [THEN conjunct1, THEN mp, OF l] obtain clk c d rest
    where "new_writes (Port_State_start (\<lambda>r. 0))
          (snd (Port_Init_entry (Pins cfg_PF0 ! 0) (0, Port_State_start (\<lambda>r. 0)))) =
        clk @ [(GPIO GPIO_PORTF_BASE_ADDRESS PORT_LOCK_REG_OFFSET, 0x4C4F434B),
               (GPIO GPIO_PORTF_BASE_ADDRESS PORT_COMMIT_REG_OFFSET, c),
               (GPIO GPIO_PORTF_BASE_ADDRESS PORT_DIR_REG_OFFSET, d)] @ rest"
      and "bit c (unat (Ch_Num (Pins cfg_PF0 ! 0)))"
      and "bit d (unat (Ch_Num (Pins cfg_PF0 ! 0))) = (Direction (Pins cfg_PF0 ! 0) = PORT_PIN_OUT)"
    by blast
  with v(1,2) have i: "\<exists>clk c d rest.
      new_writes (Port_State_start (\<lambda>r. 0))
          (snd (Port_Init_entry (Pins cfg_PF0 ! 0) (0, Port_State_start (\<lambda>r. 0)))) =
        clk @ [(GPIO GPIO_PORTF_BASE_ADDRESS PORT_LOCK_REG_OFFSET, 0x4C4F434B),
               (GPIO GPIO_PORTF_BASE_ADDRESS PORT_COMMIT_REG_OFFSET, c),
               (GPIO GPIO_PORTF_BASE_ADDRESS PORT_DIR_REG_OFFSET, d)] @ rest \<and>
      bit c 0 \<and> \<not> bit d 0"
    by auto
  have g': "Port_Status (Port_State_ready cfg_PF0 (\<lambda>r. 0)) \<noteq> PORT_NOT_INITIALIZED \<and>
    unat (0 :: uint8) < PORT_CONFIGURED_CHANNELS \<and>
    Port_ConfigPtr (Port_State_ready cfg_PF0 (\<lambda>r. 0)) = Some cfg_PF0 \<and>
    Pins cfg_PF0 ! unat (0 :: uint8) = Pins cfg_PF0 ! 0 \<and>
    Direction_Changeable (Pins cfg_PF0 ! 0) \<noteq> FALSE \<and>
    is_locked_pin (Port_Num (Pins cfg_PF0 ! 0)) (Ch_Num (Pins cfg_PF0 ! 0)) \<and>
    port_base (Port_Num (Pins cfg_PF0 ! 0)) = Some GPIO_PORTF_BASE_ADDRESS"
    using g l v(3) by blast
  from T [THEN conjunct2, THEN conjunct2, THEN mp, OF g'] obtain s' c' d'
    where "Port_setPinDirection 0 PORT_PIN_OUT (Port_State_ready cfg_PF0 (\<lambda>r. 0)) = Inr s'"
      and "new_writes (Port_State_ready cfg_PF0 (\<lambda>r. 0)) s' =
        [(GPIO GPIO_PORTF_BASE_ADDRESS PORT_LOCK_REG_OFFSET, 0x4C4F434B),
         (GPIO GPIO_PORTF_BASE_ADDRESS PORT_COMMIT_REG_OFFSET, c'),
         (GPIO GPIO_PORTF_BASE_ADDRESS PORT_DIR_REG_OFFSET, d')]"
      and "bit c' (unat (Ch_Num (Pins cfg_PF0 ! 0)))"
      and "bit d' (unat (Ch_Num (Pins cfg_PF0 ! 0))) = (PORT_PIN_OUT = PORT_PIN_OUT)"
    by blast
  then have d: "\<exists>s' c d.
      Port_setPinDirection 0 PORT_PIN_OUT (Port_State_ready cfg_PF0 (\<lambda>r. 0)) = Inr s' \<and>
      new_writes (Port_State_ready cfg_PF0 (\<lambda>r. 0)) s' =
        [(GPIO GPIO_PORTF_BASE_ADDRESS PORT_LOCK_REG_OFFSET, 0x4C4F434B),
         (GPIO GPIO_PORTF_BASE_ADDRESS PORT_COMMIT_REG_OFFSET, c),
         (GPIO GPIO_PORTF_BASE_ADDRESS PORT_DIR_REG_OFFSET, d)] \<and>
      bit c 0 \<and> bit d 0"
    unfolding v by simp
  have f: "is_locked_pin (Port_Num ((Pins cfg_PF0 ! 0)\<lparr>Direction_Changeable := FALSE\<rparr>))
      (Ch_Num ((Pins cfg_PF0 ! 0)\<lparr>Direction_Changeable := FALSE\<rparr>)) \<and>
    port_base (Port_Num ((Pins cfg_PF0 ! 0)\<lparr>Direction_Changeable := FALSE\<rparr>))
      = Some GPIO_PORTF_BASE_ADDRESS \<and>
    Direction_Changeable ((Pins cfg_PF0 ! 0)\<lparr>Direction_Changeable := FALSE\<rparr>) = FALSE"
    by (simp add: cfg_PF0_def is_locked_pin_def port_base_def)
  have vf: "unat (Ch_Num ((Pins cfg_PF0 ! 0)\<lparr>Direction_Changeable := FALSE\<rparr>)) = 0"
    "Direction ((Pins cfg_PF0 ! 0)\<lparr>Direction_Changeable := FALSE\<rparr>) \<noteq> PORT_PIN_OUT"
    by (simp_all add: cfg_PF0_def Port_consts)
  from unlock_precedes_direction_write
    [where pin = "(Pins cfg_PF0 ! 0)\<lparr>Direction_Changeable := FALSE\<rparr>"
       and b = GPIO_PORTF_BASE_ADDRESS and t = "Port_State_ready cfg_PF0 (\<lambda>r. 0)",
     THEN conjunct2, THEN conjunct1, THEN mp, OF f]
  obtain c'' d''
    where "new_writes (Port_State_ready cfg_PF0 (\<lambda>r. 0))
          (Port_Refresh_entry ((Pins cfg_PF0 ! 0)\<lparr>Direction_Changeable := FALSE\<rparr>)
             (Port_State_ready cfg_PF0 (\<lambda>r. 0))) =
        [(GPIO GPIO_PORTF_BASE_ADDRESS PORT_LOCK_REG_OFFSET, 0x4C4F434B),
         (GPIO GPIO_PORTF_BASE_ADDRESS PORT_COMMIT_REG_OFFSET, c''),
         (GPIO GPIO_PORTF_BASE_ADDRESS PORT_DIR_REG_OFFSET, d'')]"
      and "bit c'' (unat (Ch_Num ((Pins cfg_PF0 ! 0)\<lparr>Direction_Changeable := FALSE\<rparr>)))"
      and "bit d'' (unat (Ch_Num ((Pins cfg_PF0 ! 0)\<lparr>Direction_Changeable := FALSE\<rparr>)))
             = (Direction ((Pins cfg_PF0 ! 0)\<lparr>Direction_Changeable := FALSE\<rparr>) = PORT_PIN_OUT)"
    by blast
  with vf have r: "\<exists>c d.
      new_writes (Port_State_ready cfg_PF0 (\<lambda>r. 0))
          (Port_Refresh_entry ((Pins cfg_PF0 ! 0)\<lparr>Direction_Changeable := FALSE\<rparr>)
             (Port_State_ready cfg_PF0 (\<lambda>r. 0))) =
        [(GPIO GPIO_PORTF_BASE_ADDRESS PORT_LOCK_REG_OFFSET, 0x4C4F434B),
         (GPIO GPIO_PORTF_BASE_ADDRESS PORT_COMMIT_REG_OFFSET, c),
         (GPIO GPIO_PORTF_BASE_ADDRESS PORT_DIR_REG_OFFSET, d)] \<and>
      bit c 0 \<and> \<not> bit d 0"
    by auto
  show ?thesis
    by (rule conjI [OF l conjI [OF i conjI [OF g conjI [OF d conjI [OF f r]]]]])
qed

section \<open>Claims about Port_RefreshPortDirection\<close>

text \<open>
  C5. After \<open>Port_Init\<close> on a table, and whatever the registers have become since,
  \<open>Port_RefreshPortDirection\<close> finds the driver initialised and returns. Its loop body
  leaves the state as it is for an entry whose \<open>Direction_Changeable\<close> is true: no write
  (and no report) is made for such an entry. For an entry with fixed direction, a port in
  0..5 and a channel below 32 it writes the lock key and the commit bit first when the pin
  is PD7 or PF0, and then the direction register with the bit of the channel set for OUT and
  cleared otherwise. At the end of the refresh the direction bit of every such fixed entry
  has its configured value (provided no other fixed entry names the same pin with another
  direction), and every direction bit that no fixed entry names has the value it had before
  the refresh.
\<close>

theorem Port_RefreshPortDirection_restores_fixed:
  "(\<exists>s'. Port_RefreshPortDirection ((Port_Init (Some cfg) boot)\<lparr>regs := tampered\<rparr>) = Inr s' \<and>
      (\<forall>i < PORT_CONFIGURED_CHANNELS. \<forall>b.
         fixed_pin_at (Pins cfg ! i) b (unat (Ch_Num (Pins cfg ! i))) \<and>
         unat (Ch_Num (Pins cfg ! i)) < 32 \<and>
         (\<forall>j < PORT_CONFIGURED_CHANNELS.
            fixed_pin_at (Pins cfg ! j) b (unat (Ch_Num (Pins cfg ! i))) \<longrightarrow>
            (Direction (Pins cfg ! j) = PORT_PIN_OUT) = (Direction (Pins cfg ! i) = PORT_PIN_OUT))
         \<longrightarrow> bit (regs s' (GPIO b PORT_DIR_REG_OFFSET)) (unat (Ch_Num (Pins cfg ! i)))
               = (Direction (Pins cfg ! i) = PORT_PIN_OUT)) \<and>
      (\<forall>b n. (\<forall>i < PORT_CONFIGURED_CHANNELS. \<not> fixed_pin_at (Pins cfg ! i) b n) \<longrightarrow>
         bit (regs s' (GPIO b PORT_DIR_REG_OFFSET)) n = bit (tampered (GPIO b PORT_DIR_REG_OFFSET)) n))
   \<and>
   (Direction_Changeable pin \<noteq> FALSE \<longrightarrow> Port_Refresh_entry pin t = t)
   \<and>
   (Direction_Changeable pin = FALSE \<and> port_base (Port_Num pin) = Some b \<and>
    unat (Ch_Num pin) < 32 \<longrightarrow>
      new_writes t (Port_Refresh_entry pin t) =
        (if is_locked_pin (Port_Num pin) (Ch_Num pin)
         then [(GPIO b PORT_LOCK_REG_OFFSET, 0x4C4F434B),
               (GPIO b PORT_COMMIT_REG_OFFSET,
                regs t (GPIO b PORT_COMMIT_REG_OFFSET) OR push_bit (unat (Ch_Num pin)) 1)]
         else []) @
        [(GPIO b PORT_DIR_REG_OFFSET,
          if Direction pin = PORT_PIN_OUT
          then regs t (GPIO b PORT_DIR_REG_OFFSET) OR push_bit (unat (Ch_Num pin)) 1
          else regs t (GPIO b PORT_DIR_REG_OFFSET) AND NOT (push_bit (unat (Ch_Num pin)) 1))] \<and>
      bit (regs (Port_Refresh_entry pin t) (GPIO b PORT_DIR_REG_OFFSET)) (unat (Ch_Num pin))
        = (Direction pin = PORT_PIN_OUT))"
proof (intro conjI impI)
  define s1 where "s1 = (Port_Init (Some cfg) boot)\<lparr>regs := tampered\<rparr>"
  define s' where "s' = Port_Refresh_loop cfg [0..<PORT_CONFIGURED_CHANNELS] s1"
  have st: "Port_Status s1 \<noteq> PORT_NOT_INITIALIZED" and ptr: "Port_ConfigPtr s1 = Some cfg"
    and rg: "regs s1 = tampered"
    by (simp_all add: s1_def Port_Init_Some_fields PORT_INITIALIZED_def PORT_NOT_INITIALIZED_def)
  have run: "Port_RefreshPortDirection s1 = Inr s'"
    using st ptr by (simp add: Port_RefreshPortDirection_def s'_def)
  have fixed: "bit (regs s' (GPIO b PORT_DIR_REG_OFFSET)) (unat (Ch_Num (Pins cfg ! i)))
               = (Direction (Pins cfg ! i) = PORT_PIN_OUT)"
    if i: "i < PORT_CONFIGURED_CHANNELS"
      and h: "fixed_pin_at (Pins cfg ! i) b (unat (Ch_Num (Pins cfg ! i))) \<and>
         unat (Ch_Num (Pins cfg ! i)) < 32 \<and>
         (\<forall>j < PORT_CONFIGURED_CHANNELS.
            fixed_pin_at (Pins cfg ! j) b (unat (Ch_Num (Pins cfg ! i))) \<longrightarrow>
            (Direction (Pins cfg ! j) = PORT_PIN_OUT) = (Direction (Pins cfg ! i) = PORT_PIN_OUT))"
    for i b
    unfolding s'_def
  proof (rule Port_Refresh_loop_DIR_bit_restored)
    show "unat (Ch_Num (Pins cfg ! i)) < 32"
      using h by simp
    show "\<exists>k \<in> set [0..<PORT_CONFIGURED_CHANNELS].
        fixed_pin_at (Pins cfg ! k) b (unat (Ch_Num (Pins cfg ! i)))"
      using i h by auto
    show "\<forall>k \<in> set [0..<PORT_CONFIGURED_CHANNELS].
        fixed_pin_at (Pins cfg ! k) b (unat (Ch_Num (Pins cfg ! i))) \<longrightarrow>
        (Direction (Pins cfg ! k) = PORT_PIN_OUT) = (Direction (Pins cfg ! i) = PORT_PIN_OUT)"
      using h by simp
  qed
  have free: "bit (regs s' (GPIO b PORT_DIR_REG_OFFSET)) n
      = bit (tampered (GPIO b PORT_DIR_REG_OFFSET)) n"
    if "\<forall>i < PORT_CONFIGURED_CHANNELS. \<not> fixed_pin_at (Pins cfg ! i) b n" for b n
    using that Port_Refresh_loop_DIR_bit_untouched
      [of "[0..<PORT_CONFIGURED_CHANNELS]" cfg b n s1]
    by (simp add: s'_def rg)
  from run fixed free
  show "\<exists>s'. Port_RefreshPortDirection ((Port_Init (Some cfg) boot)\<lparr>regs := tampered\<rparr>) = Inr s' \<and>
      (\<forall>i < PORT_CONFIGURED_CHANNELS. \<forall>b.
         fixed_pin_at (Pins cfg ! i) b (unat (Ch_Num (Pins cfg ! i))) \<and>
         unat (Ch_Num (Pins cfg ! i)) < 32 \<and>
         (\<forall>j < PORT_CONFIGURED_CHANNELS.
            fixed_pin_at (Pins cfg ! j) b (unat (Ch_Num (Pins cfg ! i))) \<longrightarrow>
            (Direction (Pins cfg ! j) = PORT_PIN_OUT) = (Direction (Pins cfg ! i) = PORT_PIN_OUT))
         \<longrightarrow> bit (regs s' (GPIO b PORT_DIR_REG_OFFSET)) (unat (Ch_Num (Pins cfg ! i)))
               = (Direction (Pins cfg ! i) = PORT_PIN_OUT)) \<and>
      (\<forall>b n. (\<forall>i < PORT_CONFIGURED_CHANNELS. \<not> fixed_pin_at (Pins cfg ! i) b n) \<longrightarrow>
         bit (regs s' (GPIO b PORT_DIR_REG_OFFSET)) n = bit (tampered (GPIO b PORT_DIR_REG_OFFSET)) n)"
    unfolding s1_def by (intro exI [of _ s'] conjI allI impI) assumption+
next
  assume "Direction_Changeable pin \<noteq> FALSE"
  then show "Port_Refresh_entry pin t = t"
    by (simp add: Port_Refresh_entry_def)
next
  assume a: "Direction_Changeable pin = FALSE \<and> port_base (Port_Num pin) = Some b \<and>
    unat (Ch_Num pin) < 32"
  then show "new_writes t (Port_Refresh_entry pin t) =
        (if is_locked_pin (Port_Num pin) (Ch_Num pin)
         then [(GPIO b PORT_LOCK_REG_OFFSET, 0x4C4F434B),
               (GPIO b PORT_COMMIT_REG_OFFSET,
                regs t (GPIO b PORT_COMMIT_REG_OFFSET) OR push_bit (unat (Ch_Num pin)) 1)]
         else []) @
        [(GPIO b PORT_DIR_REG_OFFSET,
          if Direction pin = PORT_PIN_OUT
          then regs t (GPIO b PORT_DIR_REG_OFFSET) OR push_bit (unat (Ch_Num pin)) 1
          else regs t (GPIO b PORT_DIR_REG_OFFSET) AND NOT (push_bit (unat (Ch_Num pin)) 1))]"
    by (simp add: Port_Refresh_entry_def unlock_commit_def SET_BIT_def CLEAR_BIT_def
        write_reg_def new_writes_def Let_def)
  from a show "bit (regs (Port_Refresh_entry pin t) (GPIO b PORT_DIR_REG_OFFSET))
      (unat (Ch_Num pin)) = (Direction pin = PORT_PIN_OUT)"
    by (simp add: Port_Refresh_entry_DIR_bit fixed_pin_at_def)
qed

theorem Port_RefreshPortDirection_restores_fixed_witness:
  "(\<exists>s'. Port_RefreshPortDirection
            ((Port_Init (Some Port_Configuration) (Port_State_start (\<lambda>r. 0)))
               \<lparr>regs := (\<lambda>r. 0xFF)\<rparr>) = Inr s' \<and>
      \<not> bit (regs s' (GPIO GPIO_PORTF_BASE_ADDRESS PORT_DIR_REG_OFFSET)) 4 \<and>
      bit (regs s' (GPIO GPIO_PORTF_BASE_ADDRESS PORT_DIR_REG_OFFSET)) 1) \<and>
   Direction_Changeable (Pins Port_Configuration ! 0) \<noteq> FALSE \<and>
   Port_Refresh_entry (Pins Port_Configuration ! 0) (Port_State_ready Port_Configuration (\<lambda>r. 0xFF))
     = Port_State_ready Port_Configuration (\<lambda>r. 0xFF) \<and>
   (Direction_Changeable (Pins Port_Configuration ! 1) = FALSE \<and>
    port_base (Port_Num (Pins Port_Configuration ! 1)) = Some GPIO_PORTF_BASE_ADDRESS \<and>
    unat (Ch_Num (Pins Port_Configuration ! 1)) < 32) \<and>
   new_writes (Port_State_ready Port_Configuration (\<lambda>r. 0xFF))
     (Port_Refresh_entry (Pins Port_Configuration ! 1) (Port_State_ready Port_Configuration (\<lambda>r. 0xFF)))
     = [(GPIO GPIO_PORTF_BASE_ADDRESS PORT_DIR_REG_OFFSET, 0xEF)]"
proof -
  note T = Port_RefreshPortDirection_restores_fixed
    [where cfg = Port_Configuration and boot = "Port_State_start (\<lambda>r. 0)"
       and tampered = "\<lambda>r. 0xFF" and t = "Port_State_ready Port_Configuration (\<lambda>r. 0xFF)"]
  have two: "i = 0 \<or> i = 1" if "i < PORT_CONFIGURED_CHANNELS" for i
    using that by (auto simp add: PORT_CONFIGURED_CHANNELS_def)
  have e0: "Direction_Changeable (Pins Port_Configuration ! 0) \<noteq> FALSE"
    by (simp add: Port_Configuration_def Port_consts)
  have e1: "Direction_Changeable (Pins Port_Configuration ! 1) = FALSE \<and>
    port_base (Port_Num (Pins Port_Configuration ! 1)) = Some GPIO_PORTF_BASE_ADDRESS \<and>
    unat (Ch_Num (Pins Port_Configuration ! 1)) < 32"
    by (simp add: Port_Configuration_def Port_consts port_base_def)
  have c1: "unat (Ch_Num (Pins Port_Configuration ! 1)) = 4"
    and d1: "Direction (Pins Port_Configuration ! 1) \<noteq> PORT_PIN_OUT"
    and l1: "\<not> is_locked_pin (Port_Num (Pins Port_Configuration ! 1))
               (Ch_Num (Pins Port_Configuration ! 1))"
    by (simp_all add: Port_Configuration_def Port_consts is_locked_pin_def)
  have f0: "\<not> fixed_pin_at (Pins Port_Configuration ! 0) b n" for b n
    using e0 by (simp add: fixed_pin_at_def)
  have f1: "fixed_pin_at (Pins Port_Configuration ! 1) GPIO_PORTF_BASE_ADDRESS 4"
    using e1 c1 by (simp add: fixed_pin_at_def)
  have f1': "\<not> fixed_pin_at (Pins Port_Configuration ! 1) GPIO_PORTF_BASE_ADDRESS 1"
    using c1 by (simp add: fixed_pin_at_def)
  from T [THEN conjunct1] obtain s'
    where P: "Port_RefreshPortDirection
            ((Port_Init (Some Port_Configuration) (Port_State_start (\<lambda>r. 0)))
               \<lparr>regs := (\<lambda>r. 0xFF)\<rparr>) = Inr s' \<and>
      (\<forall>i < PORT_CONFIGURED_CHANNELS. \<forall>b.
         fixed_pin_at (Pins Port_Configuration ! i) b (unat (Ch_Num (Pins Port_Configuration ! i))) \<and>
         unat (Ch_Num (Pins Port_Configuration ! i)) < 32 \<and>
         (\<forall>j < PORT_CONFIGURED_CHANNELS.
            fixed_pin_at (Pins Port_Configuration ! j) b
              (unat (Ch_Num (Pins Port_Configuration ! i))) \<longrightarrow>
            (Direction (Pins Port_Configuration ! j) = PORT_PIN_OUT)
              = (Direction (Pins Port_Configuration ! i) = PORT_PIN_OUT))
         \<longrightarrow> bit (regs s' (GPIO b PORT_DIR_REG_OFFSET)) (unat (Ch_Num (Pins Port_Configuration ! i)))
               = (Direction (Pins Port_Configuration ! i) = PORT_PIN_OUT)) \<and>
      (\<forall>b n. (\<forall>i < PORT_CONFIGURED_CHANNELS. \<not> fixed_pin_at (Pins Port_Configuration ! i) b n)
         \<longrightarrow> bit (regs s' (GPIO b PORT_DIR_REG_OFFSET)) n = bit (0xFF :: uint32) n)"
    by (rule exE)
  note run = P [THEN conjunct1]
  note fx = P [THEN conjunct2, THEN conjunct1, rule_format]
  note fr = P [THEN conjunct2, THEN conjunct2, THEN spec, THEN spec, THEN mp]
  have one: "1 < PORT_CONFIGURED_CHANNELS"
    by (simp add: PORT_CONFIGURED_CHANNELS_def)
  have same: "\<forall>j < PORT_CONFIGURED_CHANNELS.
            fixed_pin_at (Pins Port_Configuration ! j) GPIO_PORTF_BASE_ADDRESS
              (unat (Ch_Num (Pins Port_Configuration ! 1))) \<longrightarrow>
            (Direction (Pins Port_Configuration ! j) = PORT_PIN_OUT)
              = (Direction (Pins Port_Configuration ! 1) = PORT_PIN_OUT)"
  proof (intro allI impI)
    fix j
    assume "j < PORT_CONFIGURED_CHANNELS"
      and "fixed_pin_at (Pins Port_Configuration ! j) GPIO_PORTF_BASE_ADDRESS
              (unat (Ch_Num (Pins Port_Configuration ! 1)))"
    with two [of j] f0 have "j = 1"
      by blast
    then show "(Direction (Pins Port_Configuration ! j) = PORT_PIN_OUT)
              = (Direction (Pins Port_Configuration ! 1) = PORT_PIN_OUT)"
      by simp
  qed
  have f1c: "fixed_pin_at (Pins Port_Configuration ! 1) GPIO_PORTF_BASE_ADDRESS
      (unat (Ch_Num (Pins Port_Configuration ! 1)))"
    using f1 by (simp only: c1)
  have "bit (regs s' (GPIO GPIO_PORTF_BASE_ADDRESS PORT_DIR_REG_OFFSET))
      (unat (Ch_Num (Pins Port_Configuration ! 1)))
      = (Direction (Pins Port_Configuration ! 1) = PORT_PIN_OUT)"
    using e1 by (intro fx [OF one] conjI f1c same) simp
  with d1 have b4: "\<not> bit (regs s' (GPIO GPIO_PORTF_BASE_ADDRESS PORT_DIR_REG_OFFSET)) 4"
    unfolding c1 by blast
  have none: "\<forall>i < PORT_CONFIGURED_CHANNELS.
      \<not> fixed_pin_at (Pins Port_Configuration ! i) GPIO_PORTF_BASE_ADDRESS 1"
  proof (intro allI impI)
    fix i
    assume "i < PORT_CONFIGURED_CHANNELS"
    with two [of i] f0 f1'
    show "\<not> fixed_pin_at (Pins Port_Configuration ! i) GPIO_PORTF_BASE_ADDRESS 1"
      by blast
  qed
  from fr [OF none] have b1: "bit (regs s' (GPIO GPIO_PORTF_BASE_ADDRESS PORT_DIR_REG_OFFSET)) 1"
    by simp
  from run b4 b1 have A: "\<exists>s'. Port_RefreshPortDirection
            ((Port_Init (Some Port_Configuration) (Port_State_start (\<lambda>r. 0)))
               \<lparr>regs := (\<lambda>r. 0xFF)\<rparr>) = Inr s' \<and>
      \<not> bit (regs s' (GPIO GPIO_PORTF_BASE_ADDRESS PORT_DIR_REG_OFFSET)) 4 \<and>
      bit (regs s' (GPIO GPIO_PORTF_BASE_ADDRESS PORT_DIR_REG_OFFSET)) 1"
    by blast
  note B = T [where pin = "Pins Port_Configuration ! 0", THEN conjunct2, THEN conjunct1,
      THEN mp, OF e0]
  from T [where pin = "Pins Port_Configuration ! 1" and b = GPIO_PORTF_BASE_ADDRESS,
      THEN conjunct2, THEN conjunct2, THEN mp, OF e1, THEN conjunct1] l1 d1
  have C: "new_writes (Port_State_ready Port_Configuration (\<lambda>r. 0xFF))
     (Port_Refresh_entry (Pins Port_Configuration ! 1) (Port_State_ready Port_Configuration (\<lambda>r. 0xFF)))
     = [(GPIO GPIO_PORTF_BASE_ADDRESS PORT_DIR_REG_OFFSET, 0xEF)]"
    unfolding c1 by (simp add: Port_State_ready_def)
  show ?thesis
    by (rule conjI [OF A conjI [OF e0 conjI [OF B conjI [OF e1 C]]]])
qed

end
